theory Spec2Isabelle
  imports Complex_Main "HOL-Library.Sublist"
begin

section \<open>Data model of the event hub (src/event.js)\<close>

text \<open>
  The event hub keeps three kinds of documents in a remote document store: events
  (collection \<^verbatim>\<open>artifacts/<appId>/public/data/events\<close>), one profile per user and one
  registration record per (user, event) pair. Inside the store a document is found by
  its key: an event key is a natural number handed out by the store, a user is
  identified by the string \<^verbatim>\<open>user.uid\<close>. The document paths the code builds are
  modelled where a reference is made from them (section on document references).
\<close>

type_synonym identity = string
type_synonym key = nat

datatype status = Pending | Approved | Rejected

text \<open>
  \<^verbatim>\<open>eventData\<close> is the object built by \<^verbatim>\<open>EventModal.handleSubmit\<close> (line 207):
  \<^verbatim>\<open>{ title, description, date, time, location, capacity: Number(capacity) }\<close>.
  An event document has these six fields and the four added on creation (lines 385-391).
  Every event document the hub writes has all ten fields, so the defaults of the readers
  (\<^verbatim>\<open>eventData.attendees || []\<close>, lines 437 and 487) never apply and the fields are
  total. The status is one of the three strings \<^verbatim>\<open>'pending'\<close>, \<^verbatim>\<open>'approved'\<close> and
  \<^verbatim>\<open>'rejected'\<close>, the only ones the hub writes. The capacity is the number that
  \<^verbatim>\<open>Number(capacity)\<close> yields, a finite double and so a rational number; the code stores
  it and compares it with attendee counts and with 0, and computes nothing from it, so
  nothing is rounded after that conversion.
\<close>

record eventData =
  title :: string
  description :: string
  date :: string
  time :: string
  location :: string
  capacity :: rat

record event = eventData +
  creatorId :: identity
  creatorEmail :: string
  status :: status
  attendees :: "identity list"

record registration =
  r_eventId :: key
  r_registeredAt :: string

record profile =
  profile_email :: string
  profile_isAdmin :: bool

record user =
  uid :: identity
  email :: "string option"

text \<open>
  The argument of \<^verbatim>\<open>updateDoc\<close> is a partial document: only the fields it
  names are written. The three call sites pass \<^verbatim>\<open>eventData\<close> (line 381),
  \<^verbatim>\<open>{ attendees: ... }\<close> (lines 449, 496) and \<^verbatim>\<open>{ status: ... }\<close> (lines 523, 537).
\<close>

record patch =
  p_title :: "string option"
  p_description :: "string option"
  p_date :: "string option"
  p_time :: "string option"
  p_location :: "string option"
  p_capacity :: "rat option"
  p_creatorId :: "identity option"
  p_creatorEmail :: "string option"
  p_status :: "status option"
  p_attendees :: "identity list option"

definition no_fields :: patch where
  "no_fields = \<lparr>p_title = None, p_description = None, p_date = None, p_time = None,
     p_location = None, p_capacity = None, p_creatorId = None, p_creatorEmail = None,
     p_status = None, p_attendees = None\<rparr>"

definition eventData_fields :: "eventData \<Rightarrow> patch" where
  "eventData_fields d = no_fields\<lparr>p_title := Some (title d), p_description := Some (description d),
     p_date := Some (date d), p_time := Some (time d), p_location := Some (location d),
     p_capacity := Some (capacity d)\<rparr>"

definition attendees_field :: "identity list \<Rightarrow> patch" where
  "attendees_field xs = no_fields\<lparr>p_attendees := Some xs\<rparr>"

definition status_field :: "status \<Rightarrow> patch" where
  "status_field st = no_fields\<lparr>p_status := Some st\<rparr>"

definition or_else :: "'a option \<Rightarrow> 'a \<Rightarrow> 'a" where
  "or_else x d = (case x of None \<Rightarrow> d | Some v \<Rightarrow> v)"

definition merge_fields :: "patch \<Rightarrow> event \<Rightarrow> event" where
  "merge_fields p e =
     \<lparr>title = or_else (p_title p) (title e),
      description = or_else (p_description p) (description e),
      date = or_else (p_date p) (date e),
      time = or_else (p_time p) (time e),
      location = or_else (p_location p) (location e),
      capacity = or_else (p_capacity p) (capacity e),
      creatorId = or_else (p_creatorId p) (creatorId e),
      creatorEmail = or_else (p_creatorEmail p) (creatorEmail e),
      status = or_else (p_status p) (status e),
      attendees = or_else (p_attendees p) (attendees e)\<rparr>"

section \<open>The document store and its gateway\<close>

record store =
  events :: "key \<rightharpoonup> event"
  registrations :: "identity \<times> key \<rightharpoonup> registration"
  profiles :: "identity \<rightharpoonup> profile"
  nextKey :: key


datatype request =
    GetEvent key
  | GetProfile identity
  | AddEvent event
  | UpdateEvent key patch
  | DeleteEvent key
  | SetProfile identity profile
  | SetRegistration identity key registration
  | DeleteRegistration identity key

datatype store_error = Unavailable | NoDocument

text \<open>
  What a write does to the store once the gateway has accepted it: \<^verbatim>\<open>addDoc\<close> stores
  the document under a fresh key, \<^verbatim>\<open>updateDoc\<close> merges the given fields into an
  existing document and fails when there is none, \<^verbatim>\<open>setDoc\<close> creates or replaces,
  \<^verbatim>\<open>deleteDoc\<close> removes (and succeeds when there is nothing to remove). Reads leave
  the store as it is.
\<close>

fun commit :: "store \<Rightarrow> request \<Rightarrow> store_error + store" where
  "commit s (GetEvent k) = Inr s"
| "commit s (GetProfile u) = Inr s"
| "commit s (AddEvent e) = Inr (s\<lparr>events := (events s)(nextKey s \<mapsto> e), nextKey := Suc (nextKey s)\<rparr>)"
| "commit s (UpdateEvent k p) =
     (case events s k of
        None \<Rightarrow> Inl NoDocument
      | Some e \<Rightarrow> Inr (s\<lparr>events := (events s)(k \<mapsto> merge_fields p e)\<rparr>))"
| "commit s (DeleteEvent k) = Inr (s\<lparr>events := (events s)(k := None)\<rparr>)"
| "commit s (SetProfile u p) = Inr (s\<lparr>profiles := (profiles s)(u \<mapsto> p)\<rparr>)"
| "commit s (SetRegistration u k r) = Inr (s\<lparr>registrations := (registrations s)((u, k) \<mapsto> r)\<rparr>)"
| "commit s (DeleteRegistration u k) = Inr (s\<lparr>registrations := (registrations s)((u, k) := None)\<rparr>)"

text \<open>
  Every \<^verbatim>\<open>await\<close> on the store may throw (network failure, security rules). The
  environment is a predicate \<open>rejects\<close> on requests: a rejected request throws
  \<open>Unavailable\<close> and changes nothing.
\<close>

definition send :: "(request \<Rightarrow> bool) \<Rightarrow> store \<Rightarrow> request \<Rightarrow> store_error + store" where
  "send rejects s r = (if rejects r then Inl Unavailable else commit s r)"

definition getDoc_event :: "(request \<Rightarrow> bool) \<Rightarrow> store \<Rightarrow> key \<Rightarrow> store_error + event option" where
  "getDoc_event rejects s k = (if rejects (GetEvent k) then Inl Unavailable else Inr (events s k))"

definition getDoc_profile :: "(request \<Rightarrow> bool) \<Rightarrow> store \<Rightarrow> identity \<Rightarrow> store_error + profile option" where
  "getDoc_profile rejects s u = (if rejects (GetProfile u) then Inl Unavailable else Inr (profiles s u))"

definition is_write :: "request \<Rightarrow> bool" where
  "is_write r = (case r of GetEvent k \<Rightarrow> False | GetProfile u \<Rightarrow> False | _ \<Rightarrow> True)"

section \<open>FirebaseProvider: the session context\<close>

text \<open>
  The context value \<^verbatim>\<open>{ currentUser, userId, isAdmin }\<close> of \<^verbatim>\<open>FirebaseProvider\<close>
  together with its \<^verbatim>\<open>loading\<close> flag. \<^verbatim>\<open>setUserId\<close> is always called next to
  \<^verbatim>\<open>setCurrentUser\<close> with \<^verbatim>\<open>user.uid\<close> (lines 33-34, 46-47), so \<open>userId\<close> is
  derived from \<open>currentUser\<close>.
\<close>

record session =
  currentUser :: "user option"
  isAdmin :: bool
  loading :: bool

definition userId :: "session \<Rightarrow> identity option" where
  "userId ctx = map_option uid (currentUser ctx)"

definition initial_context :: session where
  "initial_context = \<lparr>currentUser = None, isAdmin = False, loading = True\<rparr>"

text \<open>\<^verbatim>\<open>user.email || 'anonymous'\<close>: a missing or empty e-mail reads as anonymous.\<close>

definition email_or_anonymous :: "user \<Rightarrow> string" where
  "email_or_anonymous u = (case email u of None \<Rightarrow> ''anonymous'' | Some e \<Rightarrow> if e = [] then ''anonymous'' else e)"

subsection \<open>Document references\<close>

text \<open>
  \<^verbatim>\<open>doc(firestore, path, ...pathSegments)\<close> splits the path at the slashes and makes a
  document reference of the segments; it throws ("Document references must have an even
  number of segments") when their number is odd. The three kinds of reference the code
  makes, as lists of segments; \<^verbatim>\<open>appId\<close>, user ids and event ids are single segments.
  \<^item> the profile of a user (line 36): \<^verbatim>\<open>doc(firestore, `artifacts/${appId}/users/${user.uid}/profile`)\<close>;
  \<^item> an event (lines 381, 407, 428, 478, 523, 537):
    \<^verbatim>\<open>doc(db, `artifacts/${appId}/public/data/events`, eventId)\<close>;
  \<^item> a registration (lines 454, 501):
    \<^verbatim>\<open>doc(db, `artifacts/${appId}/users/${userId}/registrations`, eventId)\<close>.
  The event and registration references have six segments and are always made (lemma
  \<open>event_and_registration_references\<close>), so the handlers of \<^verbatim>\<open>App\<close> go straight to
  the store. The profile reference has five.
\<close>

definition doc :: "string list \<Rightarrow> string list option" where
  "doc segments = (if even (length segments) then Some segments else None)"

definition profilePath :: "string \<Rightarrow> identity \<Rightarrow> string list" where
  "profilePath appId u = [''artifacts'', appId, ''users'', u, ''profile'']"

definition eventPath :: "string \<Rightarrow> string \<Rightarrow> string list" where
  "eventPath appId eventId = [''artifacts'', appId, ''public'', ''data'', ''events''] @ [eventId]"

definition registrationPath :: "string \<Rightarrow> identity \<Rightarrow> string \<Rightarrow> string list" where
  "registrationPath appId u eventId = [''artifacts'', appId, ''users'', u, ''registrations''] @ [eventId]"

text \<open>
  The callback of \<^verbatim>\<open>onAuthStateChanged\<close> (lines 31-51). It returns the new context,
  the new store and the requests it made. When \<^verbatim>\<open>doc\<close> or a store call throws, the
  callback stops there: the state setters already called keep their effect, the later
  ones (\<^verbatim>\<open>setIsAdmin\<close>, \<^verbatim>\<open>setLoading(false)\<close>) are never reached.
\<close>

definition onAuthStateChanged ::
  "string \<Rightarrow> (request \<Rightarrow> bool) \<Rightarrow> session \<Rightarrow> user option \<Rightarrow> store
     \<Rightarrow> session \<times> store \<times> request list" where
  "onAuthStateChanged appId rejects st u s =
     (case u of
        None \<Rightarrow> (st\<lparr>currentUser := None, isAdmin := False, loading := False\<rparr>, s, [])
      | Some user \<Rightarrow>
          (let st1 = st\<lparr>currentUser := Some user\<rparr> in
           case doc (profilePath appId (uid user)) of
             None \<Rightarrow> (st1, s, [])
           | Some userProfileRef \<Rightarrow>
               (let rd = GetProfile (uid user) in
                case getDoc_profile rejects s (uid user) of
                  Inl err \<Rightarrow> (st1, s, [rd])
                | Inr (Some p) \<Rightarrow> (st1\<lparr>isAdmin := profile_isAdmin p, loading := False\<rparr>, s, [rd])
                | Inr None \<Rightarrow>
                    (let w = SetProfile (uid user)
                               \<lparr>profile_email = email_or_anonymous user, profile_isAdmin = False\<rparr> in
                     case send rejects s w of
                       Inl err \<Rightarrow> (st1, s, [rd, w])
                     | Inr s' \<Rightarrow> (st1\<lparr>isAdmin := False, loading := False\<rparr>, s', [rd, w])))))"

text \<open>
  The session context after a series of authentication state changes, each with the
  gateway and the store of its moment, starting from the initial state of the provider.
\<close>

definition provider :: "string \<Rightarrow> ((request \<Rightarrow> bool) \<times> user option \<times> store) list \<Rightarrow> session" where
  "provider appId changes =
     foldl (\<lambda>st c. fst (onAuthStateChanged appId (fst c) st (fst (snd c)) (snd (snd c))))
       initial_context changes"

section \<open>The handlers of App\<close>

text \<open>
  Every handler ends by showing a message (\<^verbatim>\<open>showMessage\<close>): a fixed text, or a prefix
  followed by the message of the error it caught. A handler run is recorded as the
  message shown, the store after the run and the requests sent to the store, in order.
\<close>

datatype message = Text string | ErrorText string store_error

record outcome =
  shown :: message
  after :: store
  sent :: "request list"

text \<open>
  \<^verbatim>\<open>EventModal.handleSubmit\<close> (lines 198-210): the form is passed on to \<^verbatim>\<open>onSave\<close> only
  when no text field is empty and the capacity is positive. The form's capacity is the
  number \<^verbatim>\<open>Number(capacity)\<close>; the test \<^verbatim>\<open>capacity <= 0\<close> converts in the same way.
\<close>

definition handleSubmit :: "eventData \<Rightarrow> eventData option" where
  "handleSubmit form =
     (if title form = [] \<or> description form = [] \<or> date form = [] \<or> time form = []
         \<or> location form = [] \<or> capacity form \<le> 0
      then None else Some form)"

text \<open>
  \<^verbatim>\<open>handleSubmit\<close> is the \<^verbatim>\<open>onSubmit\<close> handler of the form (line 218), so it runs only
  for a form the browser accepts. The inputs of the form (lines 221-285) are all
  \<^verbatim>\<open>required\<close>, and the capacity input is \<^verbatim>\<open>type="number" min="1"\<close> with the default
  step 1: the browser accepts the whole numbers from 1 on.
\<close>

definition formValid :: "eventData \<Rightarrow> bool" where
  "formValid form =
     (title form \<noteq> [] \<and> description form \<noteq> [] \<and> date form \<noteq> [] \<and> time form \<noteq> []
      \<and> location form \<noteq> [] \<and> 1 \<le> capacity form \<and> of_int \<lfloor>capacity form\<rfloor> = capacity form)"

definition submitForm :: "eventData \<Rightarrow> eventData option" where
  "submitForm form = (if formValid form then handleSubmit form else None)"

text \<open>
  The document handed to \<^verbatim>\<open>addDoc\<close> (lines 385-391):
  \<^verbatim>\<open>{ ...eventData, creatorId: userId, creatorEmail: currentUser.email || 'anonymous',
  status: 'pending', attendees: [] }\<close>.
\<close>

definition new_event :: "user \<Rightarrow> eventData \<Rightarrow> event" where
  "new_event user eventData =
     \<lparr>title = title eventData, description = description eventData,
      date = date eventData, time = time eventData,
      location = location eventData, capacity = capacity eventData,
      creatorId = uid user, creatorEmail = email_or_anonymous user,
      status = Pending, attendees = []\<rparr>"

text \<open>\<^verbatim>\<open>handleSaveEvent\<close> (lines 372-400). \<open>eventToEdit\<close> is the App state of that name: the
  key and the snapshot of the event being edited, or nothing when a new event is created.\<close>

definition handleSaveEvent ::
  "(request \<Rightarrow> bool) \<Rightarrow> session \<Rightarrow> (key \<times> event) option \<Rightarrow> eventData \<Rightarrow> store \<Rightarrow> outcome" where
  "handleSaveEvent rejects ctx eventToEdit eventData s =
     (case currentUser ctx of
        None \<Rightarrow> \<lparr>shown = Text ''You must be logged in to create or edit events.'', after = s, sent = []\<rparr>
      | Some user \<Rightarrow>
          (case eventToEdit of
             Some ev \<Rightarrow>
               (let w = UpdateEvent (fst ev) (eventData_fields eventData) in
                case send rejects s w of
                  Inl err \<Rightarrow> \<lparr>shown = ErrorText ''Error saving event: '' err, after = s, sent = [w]\<rparr>
                | Inr s' \<Rightarrow> \<lparr>shown = Text ''Event updated successfully!'', after = s', sent = [w]\<rparr>)
           | None \<Rightarrow>
               (let w = AddEvent (new_event user eventData) in
                case send rejects s w of
                  Inl err \<Rightarrow> \<lparr>shown = ErrorText ''Error saving event: '' err, after = s, sent = [w]\<rparr>
                | Inr s' \<Rightarrow> \<lparr>shown = Text ''Event created successfully! Awaiting admin approval.'',
                              after = s', sent = [w]\<rparr>)))"

text \<open>\<^verbatim>\<open>handleDeleteEvent\<close> (lines 403-418): the action run once the confirmation is given.\<close>

definition handleDeleteEvent :: "(request \<Rightarrow> bool) \<Rightarrow> key \<Rightarrow> store \<Rightarrow> outcome" where
  "handleDeleteEvent rejects eventId s =
     (let w = DeleteEvent eventId in
      case send rejects s w of
        Inl err \<Rightarrow> \<lparr>shown = ErrorText ''Error deleting event: '' err, after = s, sent = [w]\<rparr>
      | Inr s' \<Rightarrow> \<lparr>shown = Text ''Event deleted successfully!'', after = s', sent = [w]\<rparr>)"

text \<open>\<^verbatim>\<open>handleRegister\<close> (lines 421-464). \<open>now\<close> is \<^verbatim>\<open>new Date().toISOString()\<close>.\<close>

definition handleRegister ::
  "(request \<Rightarrow> bool) \<Rightarrow> string \<Rightarrow> session \<Rightarrow> key \<Rightarrow> store \<Rightarrow> outcome" where
  "handleRegister rejects now ctx eventId s =
     (case currentUser ctx of
        None \<Rightarrow> \<lparr>shown = Text ''You must be logged in to register for events.'', after = s, sent = []\<rparr>
      | Some user \<Rightarrow>
          (case getDoc_event rejects s eventId of
             Inl err \<Rightarrow> \<lparr>shown = ErrorText ''Error registering: '' err, after = s, sent = [GetEvent eventId]\<rparr>
           | Inr None \<Rightarrow> \<lparr>shown = Text ''Event not found.'', after = s, sent = [GetEvent eventId]\<rparr>
           | Inr (Some eventData) \<Rightarrow>
               (let currentAttendees = attendees eventData in
                if uid user \<in> set currentAttendees
                then \<lparr>shown = Text ''You are already registered for this event.'', after = s,
                      sent = [GetEvent eventId]\<rparr>
                else if of_nat (length currentAttendees) \<ge> capacity eventData
                then \<lparr>shown = Text ''This event is full.'', after = s, sent = [GetEvent eventId]\<rparr>
                else
                  (let w1 = UpdateEvent eventId (attendees_field (currentAttendees @ [uid user])) in
                   case send rejects s w1 of
                     Inl err \<Rightarrow> \<lparr>shown = ErrorText ''Error registering: '' err, after = s,
                                  sent = [GetEvent eventId, w1]\<rparr>
                   | Inr s1 \<Rightarrow>
                       (let w2 = SetRegistration (uid user) eventId
                                   \<lparr>r_eventId = eventId, r_registeredAt = now\<rparr> in
                        case send rejects s1 w2 of
                          Inl err \<Rightarrow> \<lparr>shown = ErrorText ''Error registering: '' err, after = s1,
                                       sent = [GetEvent eventId, w1, w2]\<rparr>
                        | Inr s2 \<Rightarrow> \<lparr>shown = Text ''Successfully registered for the event!'',
                                      after = s2, sent = [GetEvent eventId, w1, w2]\<rparr>)))))"

text \<open>\<^verbatim>\<open>handleCancelRegistration\<close> (lines 467-513): the action run once the confirmation is given.\<close>

definition handleCancelRegistration ::
  "(request \<Rightarrow> bool) \<Rightarrow> session \<Rightarrow> key \<Rightarrow> store \<Rightarrow> outcome" where
  "handleCancelRegistration rejects ctx eventId s =
     (case currentUser ctx of
        None \<Rightarrow> \<lparr>shown = Text ''You must be logged in to cancel registration.'', after = s, sent = []\<rparr>
      | Some user \<Rightarrow>
          (case getDoc_event rejects s eventId of
             Inl err \<Rightarrow> \<lparr>shown = ErrorText ''Error cancelling registration: '' err, after = s,
                          sent = [GetEvent eventId]\<rparr>
           | Inr None \<Rightarrow> \<lparr>shown = Text ''Event not found.'', after = s, sent = [GetEvent eventId]\<rparr>
           | Inr (Some eventData) \<Rightarrow>
               (let currentAttendees = attendees eventData;
                    updatedAttendees = filter (\<lambda>i. i \<noteq> uid user) currentAttendees in
                if length updatedAttendees = length currentAttendees
                then \<lparr>shown = Text ''You are not registered for this event.'', after = s,
                      sent = [GetEvent eventId]\<rparr>
                else
                  (let w1 = UpdateEvent eventId (attendees_field updatedAttendees) in
                   case send rejects s w1 of
                     Inl err \<Rightarrow> \<lparr>shown = ErrorText ''Error cancelling registration: '' err, after = s,
                                  sent = [GetEvent eventId, w1]\<rparr>
                   | Inr s1 \<Rightarrow>
                       (let w2 = DeleteRegistration (uid user) eventId in
                        case send rejects s1 w2 of
                          Inl err \<Rightarrow> \<lparr>shown = ErrorText ''Error cancelling registration: '' err,
                                       after = s1, sent = [GetEvent eventId, w1, w2]\<rparr>
                        | Inr s2 \<Rightarrow> \<lparr>shown = Text ''Registration cancelled successfully!'',
                                      after = s2, sent = [GetEvent eventId, w1, w2]\<rparr>)))))"

text \<open>\<^verbatim>\<open>handleApproveEvent\<close> and \<^verbatim>\<open>handleRejectEvent\<close> (lines 517-543).\<close>

definition handleApproveEvent :: "(request \<Rightarrow> bool) \<Rightarrow> session \<Rightarrow> key \<Rightarrow> store \<Rightarrow> outcome" where
  "handleApproveEvent rejects ctx eventId s =
     (if \<not> isAdmin ctx
      then \<lparr>shown = Text ''You are not authorized to approve events.'', after = s, sent = []\<rparr>
      else
        (let w = UpdateEvent eventId (status_field Approved) in
         case send rejects s w of
           Inl err \<Rightarrow> \<lparr>shown = ErrorText ''Error approving event: '' err, after = s, sent = [w]\<rparr>
         | Inr s' \<Rightarrow> \<lparr>shown = Text ''Event approved successfully!'', after = s', sent = [w]\<rparr>))"

definition handleRejectEvent :: "(request \<Rightarrow> bool) \<Rightarrow> session \<Rightarrow> key \<Rightarrow> store \<Rightarrow> outcome" where
  "handleRejectEvent rejects ctx eventId s =
     (if \<not> isAdmin ctx
      then \<lparr>shown = Text ''You are not authorized to reject events.'', after = s, sent = []\<rparr>
      else
        (let w = UpdateEvent eventId (status_field Rejected) in
         case send rejects s w of
           Inl err \<Rightarrow> \<lparr>shown = ErrorText ''Error rejecting event: '' err, after = s, sent = [w]\<rparr>
         | Inr s' \<Rightarrow> \<lparr>shown = Text ''Event rejected successfully!'', after = s', sent = [w]\<rparr>))"

section \<open>The view projector\<close>

text \<open>
  \<open>includes_str\<close> is the substring test of \<^verbatim>\<open>String.prototype.includes\<close> (the empty
  string is included in every string).
\<close>

fun includes_str :: "string \<Rightarrow> string \<Rightarrow> bool" where
  "includes_str [] needle = (needle = [])"
| "includes_str (c # cs) needle = (prefix needle (c # cs) \<or> includes_str cs needle)"

text \<open>
  \<^verbatim>\<open>filteredEvents\<close> (lines 546-550) and \<^verbatim>\<open>displayedEvents\<close> (lines 555-566). The App
  state \<^verbatim>\<open>events\<close> is the list of event documents with their keys; an empty filter
  string is falsy and switches its filter off. \<^verbatim>\<open>String.prototype.toLowerCase\<close> belongs
  to the language, not to the repository: it is the parameter \<open>toLowerCase\<close>, and
  everything proved holds for the function the JavaScript engine implements, on all of
  Unicode.
\<close>

definition matchesDate :: "string \<Rightarrow> event \<Rightarrow> bool" where
  "matchesDate filterDate ev = (if filterDate \<noteq> [] then date ev = filterDate else True)"

definition matchesLocation :: "(string \<Rightarrow> string) \<Rightarrow> string \<Rightarrow> event \<Rightarrow> bool" where
  "matchesLocation toLowerCase filterLocation ev =
     (if filterLocation \<noteq> [] then includes_str (toLowerCase (location ev)) (toLowerCase filterLocation)
      else True)"

definition filteredEvents ::
  "(string \<Rightarrow> string) \<Rightarrow> string \<Rightarrow> string \<Rightarrow> (key \<times> event) list \<Rightarrow> (key \<times> event) list" where
  "filteredEvents toLowerCase filterDate filterLocation evs =
     filter (\<lambda>ev. matchesDate filterDate (snd ev) \<and> matchesLocation toLowerCase filterLocation (snd ev)) evs"

definition tabShows :: "session \<Rightarrow> string \<Rightarrow> event \<Rightarrow> bool" where
  "tabShows ctx activeTab ev =
     (if activeTab = ''all'' then status ev = Approved
      else if activeTab = ''myEvents'' then Some (creatorId ev) = userId ctx
      else if activeTab = ''myRegistrations''
        then (case userId ctx of None \<Rightarrow> False | Some u \<Rightarrow> u \<in> set (attendees ev))
      else if activeTab = ''adminPending'' then isAdmin ctx \<and> status ev = Pending
      else False)"

definition displayedEvents ::
  "(string \<Rightarrow> string) \<Rightarrow> session \<Rightarrow> string \<Rightarrow> string \<Rightarrow> string \<Rightarrow> (key \<times> event) list
     \<Rightarrow> (key \<times> event) list" where
  "displayedEvents toLowerCase ctx activeTab filterDate filterLocation evs =
     filter (\<lambda>ev. tabShows ctx activeTab (snd ev))
       (filteredEvents toLowerCase filterDate filterLocation evs)"

section \<open>Sequences of operations\<close>

text \<open>
  One operation of the hub, as a user triggers it: submitting the event form (a creation
  when nothing is being edited, an edit otherwise), deleting, registering (with the
  time of the click), cancelling, approving, rejecting. Each operation runs in the
  session of the user who triggers it and against the gateway as it behaves at that
  moment; operations run one after the other.
\<close>

datatype operation =
    Save "(key \<times> event) option" eventData
  | Delete key
  | Register string key
  | Cancel key
  | Approve key
  | Reject key

fun step :: "(request \<Rightarrow> bool) \<Rightarrow> store \<Rightarrow> session \<times> operation \<Rightarrow> store" where
  "step rejects s (ctx, Save eventToEdit form) =
     (case submitForm form of
        None \<Rightarrow> s
      | Some eventData \<Rightarrow> after (handleSaveEvent rejects ctx eventToEdit eventData s))"
| "step rejects s (ctx, Delete k) = after (handleDeleteEvent rejects k s)"
| "step rejects s (ctx, Register now k) = after (handleRegister rejects now ctx k s)"
| "step rejects s (ctx, Cancel k) = after (handleCancelRegistration rejects ctx k s)"
| "step rejects s (ctx, Approve k) = after (handleApproveEvent rejects ctx k s)"
| "step rejects s (ctx, Reject k) = after (handleRejectEvent rejects ctx k s)"

definition run :: "store \<Rightarrow> ((request \<Rightarrow> bool) \<times> session \<times> operation) list \<Rightarrow> store" where
  "run s xs = foldl (\<lambda>s x. step (fst x) s (snd x)) s xs"

text \<open>The event under key \<open>k\<close>, if there is one, is not pending.\<close>

definition not_pending_at :: "store \<Rightarrow> key \<Rightarrow> bool" where
  "not_pending_at s k = (case events s k of None \<Rightarrow> True | Some e \<Rightarrow> status e \<noteq> Pending)"




text \<open>The operation runs in a session without the administrator flag.\<close>

definition no_admin :: "((request \<Rightarrow> bool) \<times> session \<times> operation) list \<Rightarrow> bool" where
  "no_admin xs = list_all (\<lambda>x. \<not> isAdmin (fst (snd x))) xs"

text \<open>The event under key \<open>k\<close>, if there still is one, has the status \<open>st\<close>.\<close>

definition status_kept :: "store \<Rightarrow> key \<Rightarrow> status \<Rightarrow> bool" where
  "status_kept s k st = (case events s k of None \<Rightarrow> True | Some e \<Rightarrow> status e = st)"

section \<open>Example data\<close>

definition accept_all :: "request \<Rightarrow> bool" where
  "accept_all r = False"

definition signed_in :: "identity \<Rightarrow> bool \<Rightarrow> session" where
  "signed_in u admin = \<lparr>currentUser = Some \<lparr>uid = u, email = None\<rparr>, isAdmin = admin, loading = False\<rparr>"

definition workshop :: "rat \<Rightarrow> eventData" where
  "workshop c = \<lparr>title = ''Workshop'', description = ''Hands-on'', date = ''2030-01-15'',
     time = ''10:00'', location = ''Main Hall'', capacity = c\<rparr>"

definition workshop_event :: "rat \<Rightarrow> status \<Rightarrow> identity list \<Rightarrow> event" where
  "workshop_event c st xs = \<lparr>title = ''Workshop'', description = ''Hands-on'', date = ''2030-01-15'',
     time = ''10:00'', location = ''Main Hall'', capacity = c, creatorId = ''carol'',
     creatorEmail = ''anonymous'', status = st, attendees = xs\<rparr>"

definition one_event :: "event \<Rightarrow> store" where
  "one_event e = \<lparr>events = [0 \<mapsto> e], registrations = Map.empty, profiles = Map.empty, nextKey = 1\<rparr>"

definition reject_only :: "request \<Rightarrow> request \<Rightarrow> bool" where
  "reject_only w r = (r = w)"

text \<open>
  A store left behind by a partial failure: bob registers for event 0, then cancels while
  the gateway rejects the deletion of his registration record. The event no longer lists
  him, his registration record is still there.
\<close>

definition orphaned :: store where
  "orphaned =
     after (handleCancelRegistration (reject_only (DeleteRegistration ''bob'' 0)) (signed_in ''bob'' False) 0
       (after (handleRegister accept_all ''2030-01-01T09:00:00.000Z'' (signed_in ''bob'' False) 0
          (one_event (workshop_event 5 Approved [])))))"

text \<open>
  An administrator: the profile of root says \<^verbatim>\<open>isAdmin: true\<close>. In \<open>admin_office\<close> the
  store holds that profile and a pending event, in \<open>approved_office\<close> that profile and an
  approved event. \<open>root_session\<close> is the session context once root has signed in: the
  provider is told that nobody is signed in, then that root is.
\<close>

definition root_user :: user where
  "root_user = \<lparr>uid = ''root'', email = Some ''root@example.org''\<rparr>"

definition admin_office :: store where
  "admin_office = (one_event (workshop_event 5 Pending []))
     \<lparr>profiles := [''root'' \<mapsto> \<lparr>profile_email = ''root@example.org'', profile_isAdmin = True\<rparr>]\<rparr>"


definition root_session :: "store \<Rightarrow> session" where
  "root_session s = provider ''default-app-id'' [(accept_all, None, s), (accept_all, Some root_user, s)]"

text \<open>
  Events for the view: an approved, a pending and a rejected workshop in the Main Hall
  on 15 January, and an approved garden party in the Rose Garden on 1 February.
\<close>

definition three_events :: "(key \<times> event) list" where
  "three_events = [(0, workshop_event 5 Approved []), (1, workshop_event 5 Pending []),
     (2, workshop_event 5 Rejected [])]"

definition garden_party :: event where
  "garden_party = \<lparr>title = ''Garden party'', description = ''Outdoors'', date = ''2030-02-01'',
     time = ''15:00'', location = ''Rose Garden'', capacity = 40, creatorId = ''carol'',
     creatorEmail = ''anonymous'', status = Approved, attendees = []\<rparr>"

definition four_events :: "(key \<times> event) list" where
  "four_events = three_events @ [(3, garden_party)]"

text \<open>
  What \<^verbatim>\<open>toLowerCase\<close> returns for a string of ASCII characters: the capital letters A to
  Z are replaced by the small ones, every other ASCII character stays. It is used on
  ASCII strings only.
\<close>

definition lower_ascii :: "string \<Rightarrow> string" where
  "lower_ascii str =
     map (\<lambda>c. case map_of (zip ''ABCDEFGHIJKLMNOPQRSTUVWXYZ'' ''abcdefghijklmnopqrstuvwxyz'') c of
                 None \<Rightarrow> c | Some l \<Rightarrow> l) str"


text \<open>
  A run of three users on an approved workshop with capacity 2: alice and bob register,
  and carol, the creator, then edits the event and sets the capacity to 1.
\<close>

definition shrinking_run :: "((request \<Rightarrow> bool) \<times> session \<times> operation) list" where
  "shrinking_run =
     [(accept_all, signed_in ''alice'' False, Register ''2030-01-02T09:00:00.000Z'' 0),
      (accept_all, signed_in ''bob'' False, Register ''2030-01-03T09:00:00.000Z'' 0),
      (accept_all, signed_in ''carol'' False,
         Save (Some (0, workshop_event 2 Approved [''alice'', ''bob''])) (workshop 1))]"

section \<open>Basic facts\<close>

lemma filter_keeps_length: "length (filter P xs) = length xs \<longleftrightarrow> (\<forall>x\<in>set xs. P x)"
proof (induction xs)
  case Nil
  show ?case by simp
next
  case (Cons x xs)
  have "length (filter P xs) \<le> length xs" by (rule length_filter_le)
  then have "length (filter P xs) \<noteq> Suc (length xs)" by arith
  with Cons show ?case by simp
qed

lemma merge_attendees_field: "merge_fields (attendees_field xs) e = e\<lparr>attendees := xs\<rparr>"
  by (simp add: merge_fields_def attendees_field_def no_fields_def or_else_def)

lemma merge_status_field: "merge_fields (status_field st) e = e\<lparr>status := st\<rparr>"
  by (simp add: merge_fields_def status_field_def no_fields_def or_else_def)

lemma cancel_unregistered_outcome:
  assumes "currentUser ctx = Some user" and "\<not> rejects (GetEvent k)"
    and "events s k = Some e" and "uid user \<notin> set (attendees e)"
  shows "handleCancelRegistration rejects ctx k s =
           \<lparr>shown = Text ''You are not registered for this event.'', after = s, sent = [GetEvent k]\<rparr>"
proof -
  from assms(4) have "length (filter (\<lambda>i. i \<noteq> uid user) (attendees e)) = length (attendees e)"
    by (auto simp: filter_keeps_length)
  with assms(1-3) show ?thesis
    by (simp add: handleCancelRegistration_def getDoc_event_def)
qed

section \<open>Cancelling without a registration\<close>

text \<open>
  C7. For an existing event and a signed-in user who is not among its attendees,
  \<^verbatim>\<open>handleCancelRegistration\<close> shows "You are not registered for this event." (the
  NotRegistered failure) and nothing is mutated: the store is unchanged and the only
  request sent is the read of the event, so neither the event document nor any
  registration record is written.
\<close>

theorem cancel_not_registered:
  assumes "currentUser ctx = Some user" and "\<not> rejects (GetEvent k)"
    and "events s k = Some e" and "uid user \<notin> set (attendees e)"
  shows "handleCancelRegistration rejects ctx k s =
           \<lparr>shown = Text ''You are not registered for this event.'', after = s, sent = [GetEvent k]\<rparr>
         \<and> \<not> list_ex is_write (sent (handleCancelRegistration rejects ctx k s))"
proof -
  from assms(4) have "length (filter (\<lambda>i. i \<noteq> uid user) (attendees e)) = length (attendees e)"
    by (auto simp: filter_keeps_length)
  with assms(1-3) show ?thesis
    by (simp add: handleCancelRegistration_def getDoc_event_def is_write_def)
qed

theorem cancel_not_registered_witness:
  "handleCancelRegistration accept_all (signed_in ''bob'' False) 0
       (one_event (workshop_event 5 Approved [''alice''])) =
     \<lparr>shown = Text ''You are not registered for this event.'',
      after = one_event (workshop_event 5 Approved [''alice'']), sent = [GetEvent 0]\<rparr>
   \<and> \<not> list_ex is_write (sent (handleCancelRegistration accept_all (signed_in ''bob'' False) 0
       (one_event (workshop_event 5 Approved [''alice'']))))"
  by (rule cancel_not_registered [where user = "\<lparr>uid = ''bob'', email = None\<rparr>"
        and e = "workshop_event 5 Approved [''alice'']"])
    (simp_all add: signed_in_def accept_all_def one_event_def workshop_event_def)

section \<open>Registering\<close>

text \<open>
  The run of \<^verbatim>\<open>handleRegister\<close> once its three checks have passed, for every behaviour
  of the gateway on the two writes.
\<close>

lemma handleRegister_proceeds:
  assumes "currentUser ctx = Some user" and "\<not> rejects (GetEvent k)"
    and "events s k = Some e" and "uid user \<notin> set (attendees e)"
    and "of_nat (length (attendees e)) < capacity e"
  shows "handleRegister rejects now ctx k s =
    (let w1 = UpdateEvent k (attendees_field (attendees e @ [uid user]));
         w2 = SetRegistration (uid user) k \<lparr>r_eventId = k, r_registeredAt = now\<rparr>;
         s1 = s\<lparr>events := (events s)(k \<mapsto> e\<lparr>attendees := attendees e @ [uid user]\<rparr>)\<rparr>;
         s2 = s1\<lparr>registrations :=
                 (registrations s)((uid user, k) \<mapsto> \<lparr>r_eventId = k, r_registeredAt = now\<rparr>)\<rparr>
     in if rejects w1
        then \<lparr>shown = ErrorText ''Error registering: '' Unavailable, after = s, sent = [GetEvent k, w1]\<rparr>
        else if rejects w2
        then \<lparr>shown = ErrorText ''Error registering: '' Unavailable, after = s1,
              sent = [GetEvent k, w1, w2]\<rparr>
        else \<lparr>shown = Text ''Successfully registered for the event!'', after = s2,
              sent = [GetEvent k, w1, w2]\<rparr>)"
  using assms
  by (simp add: handleRegister_def getDoc_event_def send_def Let_def merge_attendees_field)

lemma handleRegister_already:
  assumes "currentUser ctx = Some user" and "\<not> rejects (GetEvent k)"
    and "events s k = Some e" and "uid user \<in> set (attendees e)"
  shows "handleRegister rejects now ctx k s =
           \<lparr>shown = Text ''You are already registered for this event.'', after = s, sent = [GetEvent k]\<rparr>"
  using assms by (simp add: handleRegister_def getDoc_event_def)

lemma handleRegister_full:
  assumes "currentUser ctx = Some user" and "\<not> rejects (GetEvent k)"
    and "events s k = Some e" and "uid user \<notin> set (attendees e)"
    and "capacity e \<le> of_nat (length (attendees e))"
  shows "handleRegister rejects now ctx k s =
           \<lparr>shown = Text ''This event is full.'', after = s, sent = [GetEvent k]\<rparr>"
  using assms by (simp add: handleRegister_def getDoc_event_def)

text \<open>What a run of \<^verbatim>\<open>handleRegister\<close> that ends with the success message has done.\<close>

lemma handleRegister_success:
  assumes "shown (handleRegister rejects now ctx k s) = Text ''Successfully registered for the event!''"
  obtains user e where "currentUser ctx = Some user" and "events s k = Some e"
    and "uid user \<notin> set (attendees e)" and "of_nat (length (attendees e)) < capacity e"
    and "after (handleRegister rejects now ctx k s) =
           s\<lparr>events := (events s)(k \<mapsto> e\<lparr>attendees := attendees e @ [uid user]\<rparr>),
             registrations :=
               (registrations s)((uid user, k) \<mapsto> \<lparr>r_eventId = k, r_registeredAt = now\<rparr>)\<rparr>"
proof (cases "currentUser ctx")
  case None
  with assms show ?thesis by (simp add: handleRegister_def)
next
  case (Some user)
  show ?thesis
  proof (cases "rejects (GetEvent k)")
    case True
    with assms Some show ?thesis by (simp add: handleRegister_def getDoc_event_def)
  next
    case acc: False
    show ?thesis
    proof (cases "events s k")
      case None
      with assms Some acc show ?thesis by (simp add: handleRegister_def getDoc_event_def)
    next
      case ev: (Some e)
      show ?thesis
      proof (cases "uid user \<in> set (attendees e)")
        case True
        with assms Some acc ev handleRegister_already [of ctx user rejects k s e now]
        show ?thesis by simp
      next
        case new: False
        show ?thesis
        proof (cases "capacity e \<le> of_nat (length (attendees e))")
          case True
          with assms Some acc ev new handleRegister_full [of ctx user rejects k s e now]
          show ?thesis by simp
        next
          case False
          then have room: "of_nat (length (attendees e)) < capacity e" by simp
          from assms Some acc ev new room handleRegister_proceeds [of ctx user rejects k s e now]
          have "after (handleRegister rejects now ctx k s) =
                  s\<lparr>events := (events s)(k \<mapsto> e\<lparr>attendees := attendees e @ [uid user]\<rparr>),
                    registrations :=
                      (registrations s)((uid user, k) \<mapsto> \<lparr>r_eventId = k, r_registeredAt = now\<rparr>)\<rparr>"
            by (simp add: Let_def split: if_splits)
          with that Some ev new room show ?thesis by blast
        qed
      qed
    qed
  qed
qed

text \<open>
  C4. For an existing event, a signed-in registrant who is not among its attendees and
  an attendee count below the capacity, \<^verbatim>\<open>handleRegister\<close> first sends one update of the
  event document that carries only the attendee list with the registrant appended, and
  sends the write of the registration record only after that update was accepted: the
  requests are the read, the update and then (unless the update was rejected) the
  registration write. When the update is accepted the event holds the extended list
  and no other event changes; when both writes are accepted the registration record
  exists and the success message is shown; when the second write is rejected the event
  keeps the new attendee and no record is written.
\<close>

theorem register_update_then_record:
  assumes "currentUser ctx = Some user" and "\<not> rejects (GetEvent k)"
    and "events s k = Some e" and "uid user \<notin> set (attendees e)"
    and "of_nat (length (attendees e)) < capacity e"
  shows "sent (handleRegister rejects now ctx k s) =
           [GetEvent k, UpdateEvent k (attendees_field (attendees e @ [uid user]))] @
           (if rejects (UpdateEvent k (attendees_field (attendees e @ [uid user]))) then []
            else [SetRegistration (uid user) k \<lparr>r_eventId = k, r_registeredAt = now\<rparr>])
       \<and> (rejects (UpdateEvent k (attendees_field (attendees e @ [uid user]))) \<longrightarrow>
            after (handleRegister rejects now ctx k s) = s)
       \<and> (\<not> rejects (UpdateEvent k (attendees_field (attendees e @ [uid user]))) \<longrightarrow>
            events (after (handleRegister rejects now ctx k s)) =
              (events s)(k \<mapsto> e\<lparr>attendees := attendees e @ [uid user]\<rparr>)
          \<and> (if rejects (SetRegistration (uid user) k \<lparr>r_eventId = k, r_registeredAt = now\<rparr>)
             then registrations (after (handleRegister rejects now ctx k s)) = registrations s
             else registrations (after (handleRegister rejects now ctx k s)) =
                    (registrations s)((uid user, k) \<mapsto> \<lparr>r_eventId = k, r_registeredAt = now\<rparr>)
                \<and> shown (handleRegister rejects now ctx k s) =
                    Text ''Successfully registered for the event!''))"
  using assms handleRegister_proceeds [of ctx user rejects k s e now] by (simp add: Let_def)

theorem register_update_then_record_witness:
  "sent (handleRegister accept_all ''2030-01-01T09:00:00.000Z'' (signed_in ''bob'' False) 0
           (one_event (workshop_event 5 Approved [''alice'']))) =
     [GetEvent 0, UpdateEvent 0 (attendees_field [''alice'', ''bob'']),
      SetRegistration ''bob'' 0 \<lparr>r_eventId = 0, r_registeredAt = ''2030-01-01T09:00:00.000Z''\<rparr>]
   \<and> map_option attendees (events (after (handleRegister accept_all ''2030-01-01T09:00:00.000Z''
           (signed_in ''bob'' False) 0 (one_event (workshop_event 5 Approved [''alice''])))) 0) =
       Some [''alice'', ''bob'']
   \<and> registrations (after (handleRegister accept_all ''2030-01-01T09:00:00.000Z''
           (signed_in ''bob'' False) 0 (one_event (workshop_event 5 Approved [''alice''])))) (''bob'', 0) =
       Some \<lparr>r_eventId = 0, r_registeredAt = ''2030-01-01T09:00:00.000Z''\<rparr>"
proof -
  have h1: "currentUser (signed_in ''bob'' False) = Some \<lparr>uid = ''bob'', email = None\<rparr>"
    by (simp add: signed_in_def)
  have h2: "\<not> accept_all (GetEvent 0)"
    by (simp add: accept_all_def)
  have h3: "events (one_event (workshop_event 5 Approved [''alice''])) 0 =
              Some (workshop_event 5 Approved [''alice''])"
    by (simp add: one_event_def)
  have h4: "uid \<lparr>uid = ''bob'', email = None\<rparr> \<notin> set (attendees (workshop_event 5 Approved [''alice'']))"
    by (simp add: workshop_event_def)
  have h5: "of_nat (length (attendees (workshop_event 5 Approved [''alice'']))) <
              capacity (workshop_event 5 Approved [''alice''])"
    by (simp add: workshop_event_def)
  show ?thesis
    using h1 h2 h3 h4 h5
      register_update_then_record [of "signed_in ''bob'' False" "\<lparr>uid = ''bob'', email = None\<rparr>"
        accept_all 0 "one_event (workshop_event 5 Approved [''alice''])"
        "workshop_event 5 Approved [''alice'']" "''2030-01-01T09:00:00.000Z''"]
    by (simp add: accept_all_def workshop_event_def)
qed

text \<open>
  C5. When the signed-in registrant is already among the attendees of the event,
  \<^verbatim>\<open>handleRegister\<close> shows "You are already registered for this event." (the
  AlreadyRegistered failure), leaves the store unchanged and sends nothing but the read.
  In particular, after a run of \<^verbatim>\<open>handleRegister\<close> that ended with the success message,
  a second run for the same event and user fails in this way and leaves the store, and
  so the attendees, as the first run left them.
\<close>

theorem register_twice_already_registered:
  "(currentUser ctx = Some user \<and> \<not> rejects (GetEvent k) \<and> events s k = Some e
      \<and> uid user \<in> set (attendees e) \<longrightarrow>
      handleRegister rejects now ctx k s =
        \<lparr>shown = Text ''You are already registered for this event.'', after = s, sent = [GetEvent k]\<rparr>
      \<and> \<not> list_ex is_write (sent (handleRegister rejects now ctx k s)))
   \<and> (shown (handleRegister rejects now ctx k s) = Text ''Successfully registered for the event!''
      \<and> \<not> rejects' (GetEvent k) \<longrightarrow>
      handleRegister rejects' now' ctx k (after (handleRegister rejects now ctx k s)) =
        \<lparr>shown = Text ''You are already registered for this event.'',
         after = after (handleRegister rejects now ctx k s), sent = [GetEvent k]\<rparr>)"
proof (intro conjI impI)
  assume a: "currentUser ctx = Some user \<and> \<not> rejects (GetEvent k) \<and> events s k = Some e
      \<and> uid user \<in> set (attendees e)"
  then show "handleRegister rejects now ctx k s =
        \<lparr>shown = Text ''You are already registered for this event.'', after = s, sent = [GetEvent k]\<rparr>"
    using handleRegister_already [of ctx user rejects k s e now] by simp
  then show "\<not> list_ex is_write (sent (handleRegister rejects now ctx k s))"
    by (simp add: is_write_def)
next
  assume b: "shown (handleRegister rejects now ctx k s) = Text ''Successfully registered for the event!''
      \<and> \<not> rejects' (GetEvent k)"
  then have ok: "shown (handleRegister rejects now ctx k s) = Text ''Successfully registered for the event!''"
    and rd: "\<not> rejects' (GetEvent k)" by simp_all
  from ok obtain u e0 where u: "currentUser ctx = Some u" and e0: "events s k = Some e0"
    and aft: "after (handleRegister rejects now ctx k s) =
           s\<lparr>events := (events s)(k \<mapsto> e0\<lparr>attendees := attendees e0 @ [uid u]\<rparr>),
             registrations :=
               (registrations s)((uid u, k) \<mapsto> \<lparr>r_eventId = k, r_registeredAt = now\<rparr>)\<rparr>"
    by (rule handleRegister_success)
  from aft have ev: "events (after (handleRegister rejects now ctx k s)) k =
      Some (e0\<lparr>attendees := attendees e0 @ [uid u]\<rparr>)" by simp
  have "uid u \<in> set (attendees (e0\<lparr>attendees := attendees e0 @ [uid u]\<rparr>))" by simp
  with u rd ev show "handleRegister rejects' now' ctx k (after (handleRegister rejects now ctx k s)) =
        \<lparr>shown = Text ''You are already registered for this event.'',
         after = after (handleRegister rejects now ctx k s), sent = [GetEvent k]\<rparr>"
    using handleRegister_already [of ctx u rejects' k "after (handleRegister rejects now ctx k s)"
        "e0\<lparr>attendees := attendees e0 @ [uid u]\<rparr>" now'] by simp
qed

theorem register_twice_already_registered_witness:
  "handleRegister accept_all ''t2'' (signed_in ''alice'' False) 0
       (one_event (workshop_event 5 Approved [''alice''])) =
     \<lparr>shown = Text ''You are already registered for this event.'',
      after = one_event (workshop_event 5 Approved [''alice'']), sent = [GetEvent 0]\<rparr>
   \<and> shown (handleRegister accept_all ''t1'' (signed_in ''bob'' False) 0
       (one_event (workshop_event 5 Approved [''alice'']))) = Text ''Successfully registered for the event!''
   \<and> handleRegister accept_all ''t2'' (signed_in ''bob'' False) 0
       (after (handleRegister accept_all ''t1'' (signed_in ''bob'' False) 0
          (one_event (workshop_event 5 Approved [''alice''])))) =
     \<lparr>shown = Text ''You are already registered for this event.'',
      after = after (handleRegister accept_all ''t1'' (signed_in ''bob'' False) 0
          (one_event (workshop_event 5 Approved [''alice'']))), sent = [GetEvent 0]\<rparr>"
proof -
  have h1: "currentUser (signed_in ''alice'' False) = Some \<lparr>uid = ''alice'', email = None\<rparr>
      \<and> \<not> accept_all (GetEvent 0)
      \<and> events (one_event (workshop_event 5 Approved [''alice''])) 0 =
          Some (workshop_event 5 Approved [''alice''])
      \<and> uid \<lparr>uid = ''alice'', email = None\<rparr> \<in> set (attendees (workshop_event 5 Approved [''alice'']))"
    by (simp add: signed_in_def accept_all_def one_event_def workshop_event_def)
  have h2: "shown (handleRegister accept_all ''t1'' (signed_in ''bob'' False) 0
       (one_event (workshop_event 5 Approved [''alice'']))) = Text ''Successfully registered for the event!''
      \<and> \<not> accept_all (GetEvent 0)"
    by (simp add: handleRegister_def getDoc_event_def send_def signed_in_def accept_all_def
        one_event_def workshop_event_def)
  from h1 register_twice_already_registered [of "signed_in ''alice'' False"
      "\<lparr>uid = ''alice'', email = None\<rparr>" accept_all 0
      "one_event (workshop_event 5 Approved [''alice''])" "workshop_event 5 Approved [''alice'']"
      "''t2''" accept_all "''t2''"]
  have c1: "handleRegister accept_all ''t2'' (signed_in ''alice'' False) 0
       (one_event (workshop_event 5 Approved [''alice''])) =
     \<lparr>shown = Text ''You are already registered for this event.'',
      after = one_event (workshop_event 5 Approved [''alice'']), sent = [GetEvent 0]\<rparr>"
    by blast
  from h2 register_twice_already_registered [of "signed_in ''bob'' False"
      "\<lparr>uid = ''bob'', email = None\<rparr>" accept_all 0
      "one_event (workshop_event 5 Approved [''alice''])" "workshop_event 5 Approved [''alice'']"
      "''t1''" accept_all "''t2''"]
  have c2: "handleRegister accept_all ''t2'' (signed_in ''bob'' False) 0
       (after (handleRegister accept_all ''t1'' (signed_in ''bob'' False) 0
          (one_event (workshop_event 5 Approved [''alice''])))) =
     \<lparr>shown = Text ''You are already registered for this event.'',
      after = after (handleRegister accept_all ''t1'' (signed_in ''bob'' False) 0
          (one_event (workshop_event 5 Approved [''alice'']))), sent = [GetEvent 0]\<rparr>"
    by blast
  from c1 h2 c2 show ?thesis by blast
qed

section \<open>Cancelling\<close>

lemma handleCancelRegistration_proceeds:
  assumes "currentUser ctx = Some user" and "\<not> rejects (GetEvent k)"
    and "events s k = Some e" and "uid user \<in> set (attendees e)"
  shows "handleCancelRegistration rejects ctx k s =
    (let upd = filter (\<lambda>i. i \<noteq> uid user) (attendees e);
         w1 = UpdateEvent k (attendees_field upd);
         w2 = DeleteRegistration (uid user) k;
         s1 = s\<lparr>events := (events s)(k \<mapsto> e\<lparr>attendees := upd\<rparr>)\<rparr>;
         s2 = s1\<lparr>registrations := (registrations s)((uid user, k) := None)\<rparr>
     in if rejects w1
        then \<lparr>shown = ErrorText ''Error cancelling registration: '' Unavailable, after = s,
              sent = [GetEvent k, w1]\<rparr>
        else if rejects w2
        then \<lparr>shown = ErrorText ''Error cancelling registration: '' Unavailable, after = s1,
              sent = [GetEvent k, w1, w2]\<rparr>
        else \<lparr>shown = Text ''Registration cancelled successfully!'', after = s2,
              sent = [GetEvent k, w1, w2]\<rparr>)"
proof -
  from assms(4) have "length (filter (\<lambda>i. i \<noteq> uid user) (attendees e)) \<noteq> length (attendees e)"
    by (auto simp: filter_keeps_length)
  with assms(1-3) show ?thesis
    by (simp add: handleCancelRegistration_def getDoc_event_def send_def Let_def merge_attendees_field)
qed

section \<open>A full event\<close>

text \<open>
  C6, as stated, promises the "This event is full." failure for every event whose attendee
  count has reached its capacity. The check for an existing registration comes first
  (lines 439-442 before 443-446): a registrant who is already an attendee of a full event
  is told so instead.
\<close>

theorem register_full_counterexample:
  "capacity (workshop_event 1 Approved [''alice''])
     \<le> of_nat (length (attendees (workshop_event 1 Approved [''alice''])))
   \<and> shown (handleRegister accept_all ''2030-01-01T09:00:00.000Z'' (signed_in ''alice'' False) 0
        (one_event (workshop_event 1 Approved [''alice'']))) \<noteq> Text ''This event is full.''"
  by (simp add: handleRegister_def getDoc_event_def signed_in_def accept_all_def one_event_def
      workshop_event_def)

text \<open>
  C6, amended. For an existing event whose attendee count is greater than or equal to its
  capacity and a signed-in registrant who is not already among its attendees,
  \<^verbatim>\<open>handleRegister\<close> shows "This event is full." (the EventFull failure), leaves the
  store unchanged and sends nothing but the read. In particular, for an approved event
  with capacity 1 and no attendees, two users A and B and a gateway that accepts every
  request: A registers and the attendees are [A]; B's registration fails with "This
  event is full." and changes nothing; A cancels and the attendees are []; B registers
  and the attendees are [B].
\<close>

theorem register_full:
  "(currentUser ctx = Some user \<and> \<not> rejects (GetEvent k) \<and> events s k = Some e
      \<and> uid user \<notin> set (attendees e) \<and> capacity e \<le> of_nat (length (attendees e)) \<longrightarrow>
      handleRegister rejects now ctx k s =
        \<lparr>shown = Text ''This event is full.'', after = s, sent = [GetEvent k]\<rparr>
      \<and> \<not> list_ex is_write (sent (handleRegister rejects now ctx k s)))
   \<and> (currentUser ctxA = Some ua \<and> currentUser ctxB = Some ub \<and> uid ua \<noteq> uid ub
      \<and> (\<forall>r. \<not> accepts_all r) \<and> events s0 k0 = Some e0 \<and> capacity e0 = 1 \<and> status e0 = Approved
      \<and> attendees e0 = [] \<longrightarrow>
      (let o1 = handleRegister accepts_all t1 ctxA k0 s0;
           o2 = handleRegister accepts_all t2 ctxB k0 (after o1);
           o3 = handleCancelRegistration accepts_all ctxA k0 (after o2);
           o4 = handleRegister accepts_all t3 ctxB k0 (after o3)
       in shown o1 = Text ''Successfully registered for the event!''
        \<and> map_option attendees (events (after o1) k0) = Some [uid ua]
        \<and> shown o2 = Text ''This event is full.'' \<and> after o2 = after o1
        \<and> shown o3 = Text ''Registration cancelled successfully!''
        \<and> map_option attendees (events (after o3) k0) = Some []
        \<and> shown o4 = Text ''Successfully registered for the event!''
        \<and> map_option attendees (events (after o4) k0) = Some [uid ub]))"
proof (intro conjI impI)
  assume "currentUser ctx = Some user \<and> \<not> rejects (GetEvent k) \<and> events s k = Some e
      \<and> uid user \<notin> set (attendees e) \<and> capacity e \<le> of_nat (length (attendees e))"
  then show "handleRegister rejects now ctx k s =
        \<lparr>shown = Text ''This event is full.'', after = s, sent = [GetEvent k]\<rparr>"
    using handleRegister_full [of ctx user rejects k s e now] by simp
  then show "\<not> list_ex is_write (sent (handleRegister rejects now ctx k s))"
    by (simp add: is_write_def)
next
  assume a: "currentUser ctxA = Some ua \<and> currentUser ctxB = Some ub \<and> uid ua \<noteq> uid ub
      \<and> (\<forall>r. \<not> accepts_all r) \<and> events s0 k0 = Some e0 \<and> capacity e0 = 1 \<and> status e0 = Approved
      \<and> attendees e0 = []"
  then have A: "currentUser ctxA = Some ua" and B: "currentUser ctxB = Some ub"
    and ne: "uid ua \<noteq> uid ub" and acc: "\<And>r. \<not> accepts_all r" and ev: "events s0 k0 = Some e0"
    and cap: "capacity e0 = 1" and emp: "attendees e0 = []" by simp_all
  define o1 where "o1 = handleRegister accepts_all t1 ctxA k0 s0"
  define o2 where "o2 = handleRegister accepts_all t2 ctxB k0 (after o1)"
  define o3 where "o3 = handleCancelRegistration accepts_all ctxA k0 (after o2)"
  define o4 where "o4 = handleRegister accepts_all t3 ctxB k0 (after o3)"
  have r1: "o1 = \<lparr>shown = Text ''Successfully registered for the event!'',
      after = s0\<lparr>events := (events s0)(k0 \<mapsto> e0\<lparr>attendees := [uid ua]\<rparr>),
                registrations := (registrations s0)((uid ua, k0) \<mapsto> \<lparr>r_eventId = k0, r_registeredAt = t1\<rparr>)\<rparr>,
      sent = [GetEvent k0, UpdateEvent k0 (attendees_field [uid ua]),
              SetRegistration (uid ua) k0 \<lparr>r_eventId = k0, r_registeredAt = t1\<rparr>]\<rparr>"
    unfolding o1_def
    using A ev cap emp acc handleRegister_proceeds [of ctxA ua accepts_all k0 s0 e0 t1]
    by (simp add: Let_def)
  have e1: "events (after o1) k0 = Some (e0\<lparr>attendees := [uid ua]\<rparr>)"
    by (simp add: r1)
  have r2: "o2 = \<lparr>shown = Text ''This event is full.'', after = after o1, sent = [GetEvent k0]\<rparr>"
    unfolding o2_def
    using B e1 ne cap acc
      handleRegister_full [of ctxB ub accepts_all k0 "after o1" "e0\<lparr>attendees := [uid ua]\<rparr>" t2]
    by simp
  have e2: "events (after o2) k0 = Some (e0\<lparr>attendees := [uid ua]\<rparr>)"
    by (simp add: r2 e1)
  have r3: "shown o3 = Text ''Registration cancelled successfully!''
      \<and> events (after o3) k0 = Some (e0\<lparr>attendees := []\<rparr>)"
    unfolding o3_def
    using A e2 acc
      handleCancelRegistration_proceeds [of ctxA ua accepts_all k0 "after o2" "e0\<lparr>attendees := [uid ua]\<rparr>"]
    by (simp add: Let_def)
  then have e3: "events (after o3) k0 = Some (e0\<lparr>attendees := []\<rparr>)" by simp
  have r4: "shown o4 = Text ''Successfully registered for the event!''
      \<and> events (after o4) k0 = Some (e0\<lparr>attendees := [uid ub]\<rparr>)"
    unfolding o4_def
    using B e3 cap acc
      handleRegister_proceeds [of ctxB ub accepts_all k0 "after o3" "e0\<lparr>attendees := []\<rparr>" t3]
    by (simp add: Let_def)
  from r1 e1 r2 r3 r4 have "shown o1 = Text ''Successfully registered for the event!''
        \<and> map_option attendees (events (after o1) k0) = Some [uid ua]
        \<and> shown o2 = Text ''This event is full.'' \<and> after o2 = after o1
        \<and> shown o3 = Text ''Registration cancelled successfully!''
        \<and> map_option attendees (events (after o3) k0) = Some []
        \<and> shown o4 = Text ''Successfully registered for the event!''
        \<and> map_option attendees (events (after o4) k0) = Some [uid ub]"
    by simp
  then show "let o1 = handleRegister accepts_all t1 ctxA k0 s0;
           o2 = handleRegister accepts_all t2 ctxB k0 (after o1);
           o3 = handleCancelRegistration accepts_all ctxA k0 (after o2);
           o4 = handleRegister accepts_all t3 ctxB k0 (after o3)
       in shown o1 = Text ''Successfully registered for the event!''
        \<and> map_option attendees (events (after o1) k0) = Some [uid ua]
        \<and> shown o2 = Text ''This event is full.'' \<and> after o2 = after o1
        \<and> shown o3 = Text ''Registration cancelled successfully!''
        \<and> map_option attendees (events (after o3) k0) = Some []
        \<and> shown o4 = Text ''Successfully registered for the event!''
        \<and> map_option attendees (events (after o4) k0) = Some [uid ub]"
    unfolding o1_def o2_def o3_def o4_def Let_def .
qed

theorem register_full_witness:
  "handleRegister accept_all ''t0'' (signed_in ''bob'' False) 0
       (one_event (workshop_event 1 Approved [''alice''])) =
     \<lparr>shown = Text ''This event is full.'', after = one_event (workshop_event 1 Approved [''alice'']),
      sent = [GetEvent 0]\<rparr>
   \<and> shown (handleRegister accept_all ''t2'' (signed_in ''bob'' False) 0
        (after (handleRegister accept_all ''t1'' (signed_in ''alice'' False) 0
           (one_event (workshop_event 1 Approved []))))) = Text ''This event is full.''
   \<and> map_option attendees (events (after
        (handleRegister accept_all ''t3'' (signed_in ''bob'' False) 0
          (after (handleCancelRegistration accept_all (signed_in ''alice'' False) 0
            (after (handleRegister accept_all ''t2'' (signed_in ''bob'' False) 0
              (after (handleRegister accept_all ''t1'' (signed_in ''alice'' False) 0
                (one_event (workshop_event 1 Approved [])))))))))) 0) = Some [''bob'']"
proof -
  have h1: "currentUser (signed_in ''bob'' False) = Some \<lparr>uid = ''bob'', email = None\<rparr>
      \<and> \<not> accept_all (GetEvent 0)
      \<and> events (one_event (workshop_event 1 Approved [''alice''])) 0 =
          Some (workshop_event 1 Approved [''alice''])
      \<and> uid \<lparr>uid = ''bob'', email = None\<rparr> \<notin> set (attendees (workshop_event 1 Approved [''alice'']))
      \<and> capacity (workshop_event 1 Approved [''alice''])
          \<le> of_nat (length (attendees (workshop_event 1 Approved [''alice''])))"
    by (simp add: signed_in_def accept_all_def one_event_def workshop_event_def)
  have h2: "currentUser (signed_in ''alice'' False) = Some \<lparr>uid = ''alice'', email = None\<rparr>
      \<and> currentUser (signed_in ''bob'' False) = Some \<lparr>uid = ''bob'', email = None\<rparr>
      \<and> uid \<lparr>uid = ''alice'', email = None\<rparr> \<noteq> uid \<lparr>uid = ''bob'', email = None\<rparr>
      \<and> (\<forall>r. \<not> accept_all r)
      \<and> events (one_event (workshop_event 1 Approved [])) 0 = Some (workshop_event 1 Approved [])
      \<and> capacity (workshop_event 1 Approved []) = 1 \<and> status (workshop_event 1 Approved []) = Approved
      \<and> attendees (workshop_event 1 Approved []) = []"
    by (simp add: signed_in_def accept_all_def one_event_def workshop_event_def)
  note inst = register_full [of "signed_in ''bob'' False" "\<lparr>uid = ''bob'', email = None\<rparr>"
      accept_all 0 "one_event (workshop_event 1 Approved [''alice''])"
      "workshop_event 1 Approved [''alice'']" "''t0''"
      "signed_in ''alice'' False" "\<lparr>uid = ''alice'', email = None\<rparr>"
      "signed_in ''bob'' False" "\<lparr>uid = ''bob'', email = None\<rparr>" accept_all
      "one_event (workshop_event 1 Approved [])" 0 "workshop_event 1 Approved []"
      "''t1''" "''t2''" "''t3''"]
  from inst h1 have c1: "handleRegister accept_all ''t0'' (signed_in ''bob'' False) 0
       (one_event (workshop_event 1 Approved [''alice''])) =
     \<lparr>shown = Text ''This event is full.'', after = one_event (workshop_event 1 Approved [''alice'']),
      sent = [GetEvent 0]\<rparr>"
    by blast
  from inst h2 have c2: "let o1 = handleRegister accept_all ''t1'' (signed_in ''alice'' False) 0
             (one_event (workshop_event 1 Approved []));
           o2 = handleRegister accept_all ''t2'' (signed_in ''bob'' False) 0 (after o1);
           o3 = handleCancelRegistration accept_all (signed_in ''alice'' False) 0 (after o2);
           o4 = handleRegister accept_all ''t3'' (signed_in ''bob'' False) 0 (after o3)
       in shown o1 = Text ''Successfully registered for the event!''
        \<and> map_option attendees (events (after o1) 0) = Some [uid \<lparr>uid = ''alice'', email = None\<rparr>]
        \<and> shown o2 = Text ''This event is full.'' \<and> after o2 = after o1
        \<and> shown o3 = Text ''Registration cancelled successfully!''
        \<and> map_option attendees (events (after o3) 0) = Some []
        \<and> shown o4 = Text ''Successfully registered for the event!''
        \<and> map_option attendees (events (after o4) 0) = Some [uid \<lparr>uid = ''bob'', email = None\<rparr>]"
    by blast
  from c2 have c3: "shown (handleRegister accept_all ''t2'' (signed_in ''bob'' False) 0
        (after (handleRegister accept_all ''t1'' (signed_in ''alice'' False) 0
           (one_event (workshop_event 1 Approved []))))) = Text ''This event is full.''
   \<and> map_option attendees (events (after
        (handleRegister accept_all ''t3'' (signed_in ''bob'' False) 0
          (after (handleCancelRegistration accept_all (signed_in ''alice'' False) 0
            (after (handleRegister accept_all ''t2'' (signed_in ''bob'' False) 0
              (after (handleRegister accept_all ''t1'' (signed_in ''alice'' False) 0
                (one_event (workshop_event 1 Approved [])))))))))) 0) =
       Some [uid \<lparr>uid = ''bob'', email = None\<rparr>]"
    unfolding Let_def by blast
  have "uid \<lparr>uid = ''bob'', email = None\<rparr> = ''bob''" by simp
  with c1 c3 show ?thesis by (simp only:)
qed

section \<open>Registering and then cancelling\<close>

lemma handleCancelRegistration_success:
  assumes "shown (handleCancelRegistration rejects ctx k s) = Text ''Registration cancelled successfully!''"
    and "currentUser ctx = Some user" and "events s k = Some e"
  shows "after (handleCancelRegistration rejects ctx k s) =
           s\<lparr>events := (events s)(k \<mapsto> e\<lparr>attendees := filter (\<lambda>i. i \<noteq> uid user) (attendees e)\<rparr>),
             registrations := (registrations s)((uid user, k) := None)\<rparr>"
proof (cases "rejects (GetEvent k)")
  case True
  with assms show ?thesis by (simp add: handleCancelRegistration_def getDoc_event_def)
next
  case acc: False
  show ?thesis
  proof (cases "uid user \<in> set (attendees e)")
    case True
    with assms acc handleCancelRegistration_proceeds [of ctx user rejects k s e]
    show ?thesis by (simp add: Let_def split: if_splits)
  next
    case False
    with assms acc cancel_unregistered_outcome show ?thesis by simp
  qed
qed

text \<open>
  C8, as stated, promises that the existence of the registration record is as it was before
  the register. \<^verbatim>\<open>setDoc\<close> replaces a record that is already there and \<^verbatim>\<open>deleteDoc\<close>
  removes it: from a store where a record without an attendee entry exists (left by a
  cancel whose second write failed), a successful register and cancel end without the
  record that was there before.
\<close>

theorem register_cancel_round_trip_counterexample:
  "shown (handleRegister accept_all ''2030-01-02T09:00:00.000Z'' (signed_in ''bob'' False) 0 orphaned)
     = Text ''Successfully registered for the event!''
   \<and> shown (handleCancelRegistration accept_all (signed_in ''bob'' False) 0
        (after (handleRegister accept_all ''2030-01-02T09:00:00.000Z'' (signed_in ''bob'' False) 0 orphaned)))
     = Text ''Registration cancelled successfully!''
   \<and> registrations orphaned (''bob'', 0) \<noteq> None
   \<and> registrations (after (handleCancelRegistration accept_all (signed_in ''bob'' False) 0
        (after (handleRegister accept_all ''2030-01-02T09:00:00.000Z'' (signed_in ''bob'' False) 0 orphaned))))
        (''bob'', 0) = None"
  by (simp add: orphaned_def handleRegister_def handleCancelRegistration_def getDoc_event_def send_def
      signed_in_def accept_all_def reject_only_def one_event_def workshop_event_def
      merge_attendees_field)

text \<open>
  C8, amended. When a run of \<^verbatim>\<open>handleRegister\<close> and the following run of
  \<^verbatim>\<open>handleCancelRegistration\<close> for the same event and user both end with their success
  message (all their writes were accepted), the events, with the attendee list of the
  event, are as before the register, and no registration record exists for the pair;
  profiles and registrations of other pairs are untouched. So when no registration
  record for the pair existed before the register, the store after the cancel is the
  store before the register.
\<close>

theorem register_cancel_round_trip:
  assumes "currentUser ctx = Some user"
    and "shown (handleRegister rejects now ctx k s) = Text ''Successfully registered for the event!''"
    and "shown (handleCancelRegistration rejects' ctx k (after (handleRegister rejects now ctx k s)))
           = Text ''Registration cancelled successfully!''"
  shows "events (after (handleCancelRegistration rejects' ctx k (after (handleRegister rejects now ctx k s))))
           = events s
       \<and> registrations (after (handleCancelRegistration rejects' ctx k (after (handleRegister rejects now ctx k s))))
           = (registrations s)((uid user, k) := None)
       \<and> (registrations s (uid user, k) = None \<longrightarrow>
            after (handleCancelRegistration rejects' ctx k (after (handleRegister rejects now ctx k s))) = s)"
proof -
  define s1 where "s1 = after (handleRegister rejects now ctx k s)"
  define s2 where "s2 = after (handleCancelRegistration rejects' ctx k s1)"
  from assms(2) obtain u e where u: "currentUser ctx = Some u" and ev: "events s k = Some e"
    and new: "uid u \<notin> set (attendees e)"
    and aft: "after (handleRegister rejects now ctx k s) =
           s\<lparr>events := (events s)(k \<mapsto> e\<lparr>attendees := attendees e @ [uid u]\<rparr>),
             registrations :=
               (registrations s)((uid u, k) \<mapsto> \<lparr>r_eventId = k, r_registeredAt = now\<rparr>)\<rparr>"
    by (rule handleRegister_success)
  from u assms(1) have [simp]: "u = user" by simp
  from aft have s1: "s1 = s\<lparr>events := (events s)(k \<mapsto> e\<lparr>attendees := attendees e @ [uid user]\<rparr>),
             registrations :=
               (registrations s)((uid user, k) \<mapsto> \<lparr>r_eventId = k, r_registeredAt = now\<rparr>)\<rparr>"
    by (simp add: s1_def)
  then have ev1: "events s1 k = Some (e\<lparr>attendees := attendees e @ [uid user]\<rparr>)" by simp
  from new have restored: "filter (\<lambda>i. i \<noteq> uid user) (attendees e) = attendees e"
    by (auto simp: filter_id_conv)
  from assms(3) have "shown (handleCancelRegistration rejects' ctx k s1)
           = Text ''Registration cancelled successfully!''"
    by (simp add: s1_def)
  from handleCancelRegistration_success [OF this assms(1) ev1]
  have "s2 = s1\<lparr>events := (events s1)(k \<mapsto> e\<lparr>attendees := attendees e\<rparr>),
             registrations := (registrations s1)((uid user, k) := None)\<rparr>"
    by (simp add: s2_def restored)
  with s1 ev have s2: "s2 = s\<lparr>events := events s, registrations := (registrations s)((uid user, k) := None)\<rparr>"
    by (simp add: map_upd_triv)
  have same: "registrations s (uid user, k) = None \<Longrightarrow> (registrations s)((uid user, k) := None) = registrations s"
    by (rule ext) simp
  from s2 have "events s2 = events s"
    and "registrations s2 = (registrations s)((uid user, k) := None)"
    and "registrations s (uid user, k) = None \<longrightarrow> s2 = s"
    by (simp_all add: same)
  then show ?thesis unfolding s2_def s1_def by blast
qed

theorem register_cancel_round_trip_witness:
  "shown (handleRegister accept_all ''2030-01-01T09:00:00.000Z'' (signed_in ''bob'' False) 0
       (one_event (workshop_event 5 Approved [''alice''])))
     = Text ''Successfully registered for the event!''
   \<and> shown (handleCancelRegistration accept_all (signed_in ''bob'' False) 0
       (after (handleRegister accept_all ''2030-01-01T09:00:00.000Z'' (signed_in ''bob'' False) 0
          (one_event (workshop_event 5 Approved [''alice''])))))
     = Text ''Registration cancelled successfully!''
   \<and> after (handleCancelRegistration accept_all (signed_in ''bob'' False) 0
       (after (handleRegister accept_all ''2030-01-01T09:00:00.000Z'' (signed_in ''bob'' False) 0
          (one_event (workshop_event 5 Approved [''alice''])))))
     = one_event (workshop_event 5 Approved [''alice''])"
proof -
  have h1: "currentUser (signed_in ''bob'' False) = Some \<lparr>uid = ''bob'', email = None\<rparr>"
    by (simp add: signed_in_def)
  have h2: "shown (handleRegister accept_all ''2030-01-01T09:00:00.000Z'' (signed_in ''bob'' False) 0
       (one_event (workshop_event 5 Approved [''alice''])))
     = Text ''Successfully registered for the event!''"
    by (simp add: handleRegister_def getDoc_event_def send_def signed_in_def accept_all_def
        one_event_def workshop_event_def)
  have h3: "shown (handleCancelRegistration accept_all (signed_in ''bob'' False) 0
       (after (handleRegister accept_all ''2030-01-01T09:00:00.000Z'' (signed_in ''bob'' False) 0
          (one_event (workshop_event 5 Approved [''alice''])))))
     = Text ''Registration cancelled successfully!''"
    by (simp add: handleRegister_def handleCancelRegistration_def getDoc_event_def send_def Let_def
        signed_in_def accept_all_def one_event_def workshop_event_def merge_attendees_field)
  have h4: "registrations (one_event (workshop_event 5 Approved [''alice'']))
      (uid \<lparr>uid = ''bob'', email = None\<rparr>, 0) = None"
    by (simp add: one_event_def)
  from h1 h2 h3 h4
    register_cancel_round_trip [of "signed_in ''bob'' False" "\<lparr>uid = ''bob'', email = None\<rparr>"
      accept_all "''2030-01-01T09:00:00.000Z''" 0 "one_event (workshop_event 5 Approved [''alice''])"
      accept_all]
  show ?thesis by blast
qed

section \<open>Editing an event\<close>

lemma merge_eventData_fields:
  "merge_fields (eventData_fields d) e =
     e\<lparr>title := title d, description := description d, date := date d, time := time d,
       location := location d, capacity := capacity d\<rparr>"
  by (simp add: merge_fields_def eventData_fields_def no_fields_def or_else_def)

lemma handleSaveEvent_edit_effect:
  "after (handleSaveEvent rejects ctx (Some (k, snapshot)) d s) = s
   \<or> (\<exists>e. events s k = Some e
        \<and> after (handleSaveEvent rejects ctx (Some (k, snapshot)) d s) =
            s\<lparr>events := (events s)(k \<mapsto> merge_fields (eventData_fields d) e)\<rparr>)"
  by (auto simp: handleSaveEvent_def send_def Let_def split: option.splits)

text \<open>
  C10. Saving the form while an event is being edited sends at most one request, the
  update of that event with the six form fields title, description, date, time,
  location and capacity and no other field. Whatever the gateway does, every event has
  the same status, attendees, creatorId and creatorEmail after the save as before, and
  no registration or profile changes. When the user is signed in, the event exists and
  the gateway accepts the update, the event's six form fields are those of the form.
\<close>

theorem edit_writes_form_fields_only:
  "(\<forall>r \<in> set (sent (handleSaveEvent rejects ctx (Some (k, snapshot)) d s)).
       r = UpdateEvent k (eventData_fields d))
   \<and> eventData_fields d =
       \<lparr>p_title = Some (title d), p_description = Some (description d), p_date = Some (date d),
        p_time = Some (time d), p_location = Some (location d), p_capacity = Some (capacity d),
        p_creatorId = None, p_creatorEmail = None, p_status = None, p_attendees = None\<rparr>
   \<and> (\<forall>k'. map_option status (events (after (handleSaveEvent rejects ctx (Some (k, snapshot)) d s)) k')
             = map_option status (events s k')
        \<and> map_option attendees (events (after (handleSaveEvent rejects ctx (Some (k, snapshot)) d s)) k')
             = map_option attendees (events s k')
        \<and> map_option creatorId (events (after (handleSaveEvent rejects ctx (Some (k, snapshot)) d s)) k')
             = map_option creatorId (events s k')
        \<and> map_option creatorEmail (events (after (handleSaveEvent rejects ctx (Some (k, snapshot)) d s)) k')
             = map_option creatorEmail (events s k'))
   \<and> registrations (after (handleSaveEvent rejects ctx (Some (k, snapshot)) d s)) = registrations s
   \<and> profiles (after (handleSaveEvent rejects ctx (Some (k, snapshot)) d s)) = profiles s
   \<and> (currentUser ctx = Some user \<and> \<not> rejects (UpdateEvent k (eventData_fields d))
        \<and> events s k = Some e \<longrightarrow>
        events (after (handleSaveEvent rejects ctx (Some (k, snapshot)) d s)) k =
          Some (e\<lparr>title := title d, description := description d, date := date d, time := time d,
                 location := location d, capacity := capacity d\<rparr>))"
proof (intro conjI allI impI)
  show "\<forall>r \<in> set (sent (handleSaveEvent rejects ctx (Some (k, snapshot)) d s)).
       r = UpdateEvent k (eventData_fields d)"
    by (auto simp: handleSaveEvent_def Let_def split: option.splits sum.splits)
  show "eventData_fields d =
       \<lparr>p_title = Some (title d), p_description = Some (description d), p_date = Some (date d),
        p_time = Some (time d), p_location = Some (location d), p_capacity = Some (capacity d),
        p_creatorId = None, p_creatorEmail = None, p_status = None, p_attendees = None\<rparr>"
    by (simp add: eventData_fields_def no_fields_def)
  show "registrations (after (handleSaveEvent rejects ctx (Some (k, snapshot)) d s)) = registrations s"
    using handleSaveEvent_edit_effect [of rejects ctx k snapshot d s] by auto
  show "profiles (after (handleSaveEvent rejects ctx (Some (k, snapshot)) d s)) = profiles s"
    using handleSaveEvent_edit_effect [of rejects ctx k snapshot d s] by auto
next
  fix k'
  show "map_option status (events (after (handleSaveEvent rejects ctx (Some (k, snapshot)) d s)) k')
             = map_option status (events s k')"
    using handleSaveEvent_edit_effect [of rejects ctx k snapshot d s]
    by (auto simp: merge_eventData_fields)
  show "map_option attendees (events (after (handleSaveEvent rejects ctx (Some (k, snapshot)) d s)) k')
             = map_option attendees (events s k')"
    using handleSaveEvent_edit_effect [of rejects ctx k snapshot d s]
    by (auto simp: merge_eventData_fields)
  show "map_option creatorId (events (after (handleSaveEvent rejects ctx (Some (k, snapshot)) d s)) k')
             = map_option creatorId (events s k')"
    using handleSaveEvent_edit_effect [of rejects ctx k snapshot d s]
    by (auto simp: merge_eventData_fields)
  show "map_option creatorEmail (events (after (handleSaveEvent rejects ctx (Some (k, snapshot)) d s)) k')
             = map_option creatorEmail (events s k')"
    using handleSaveEvent_edit_effect [of rejects ctx k snapshot d s]
    by (auto simp: merge_eventData_fields)
next
  assume "currentUser ctx = Some user \<and> \<not> rejects (UpdateEvent k (eventData_fields d))
        \<and> events s k = Some e"
  then show "events (after (handleSaveEvent rejects ctx (Some (k, snapshot)) d s)) k =
          Some (e\<lparr>title := title d, description := description d, date := date d, time := time d,
                 location := location d, capacity := capacity d\<rparr>)"
    by (simp add: handleSaveEvent_def send_def Let_def merge_eventData_fields)
qed

theorem edit_writes_form_fields_only_witness:
  "sent (handleSaveEvent accept_all (signed_in ''carol'' False)
       (Some (0, workshop_event 5 Approved [''alice''])) (workshop 9)
       (one_event (workshop_event 5 Approved [''alice'']))) = [UpdateEvent 0 (eventData_fields (workshop 9))]
   \<and> events (after (handleSaveEvent accept_all (signed_in ''carol'' False)
       (Some (0, workshop_event 5 Approved [''alice''])) (workshop 9)
       (one_event (workshop_event 5 Approved [''alice''])))) 0 = Some (workshop_event 9 Approved [''alice''])"
proof -
  have h: "currentUser (signed_in ''carol'' False) = Some \<lparr>uid = ''carol'', email = None\<rparr>
      \<and> \<not> accept_all (UpdateEvent 0 (eventData_fields (workshop 9)))
      \<and> events (one_event (workshop_event 5 Approved [''alice''])) 0 =
          Some (workshop_event 5 Approved [''alice''])"
    by (simp add: signed_in_def accept_all_def one_event_def)
  have sent: "sent (handleSaveEvent accept_all (signed_in ''carol'' False)
       (Some (0, workshop_event 5 Approved [''alice''])) (workshop 9)
       (one_event (workshop_event 5 Approved [''alice'']))) = [UpdateEvent 0 (eventData_fields (workshop 9))]"
    by (simp add: handleSaveEvent_def send_def Let_def signed_in_def accept_all_def one_event_def)
  from h edit_writes_form_fields_only [of accept_all "signed_in ''carol'' False" 0
      "workshop_event 5 Approved [''alice'']" "workshop 9"
      "one_event (workshop_event 5 Approved [''alice''])" "\<lparr>uid = ''carol'', email = None\<rparr>"
      "workshop_event 5 Approved [''alice'']"]
  have "events (after (handleSaveEvent accept_all (signed_in ''carol'' False)
       (Some (0, workshop_event 5 Approved [''alice''])) (workshop 9)
       (one_event (workshop_event 5 Approved [''alice''])))) 0 =
     Some ((workshop_event 5 Approved [''alice''])\<lparr>title := title (workshop 9),
        description := description (workshop 9), date := date (workshop 9), time := time (workshop 9),
        location := location (workshop 9), capacity := capacity (workshop 9)\<rparr>)"
    by blast
  with sent show ?thesis by (simp add: workshop_def workshop_event_def)
qed

section \<open>Effects of the handlers\<close>

text \<open>The store after a handler has run is the store before it, or one of a few updates.\<close>

lemma handleApproveEvent_effect:
  "after (handleApproveEvent rejects ctx k s) = s
   \<or> (\<exists>e. isAdmin ctx \<and> events s k = Some e
        \<and> after (handleApproveEvent rejects ctx k s) = s\<lparr>events := (events s)(k \<mapsto> e\<lparr>status := Approved\<rparr>)\<rparr>)"
  by (auto simp: handleApproveEvent_def send_def Let_def merge_status_field split: option.splits)

lemma handleRejectEvent_effect:
  "after (handleRejectEvent rejects ctx k s) = s
   \<or> (\<exists>e. isAdmin ctx \<and> events s k = Some e
        \<and> after (handleRejectEvent rejects ctx k s) = s\<lparr>events := (events s)(k \<mapsto> e\<lparr>status := Rejected\<rparr>)\<rparr>)"
  by (auto simp: handleRejectEvent_def send_def Let_def merge_status_field split: option.splits)

lemma handleSaveEvent_create_effect:
  "after (handleSaveEvent rejects ctx None d s) = s
   \<or> (\<exists>user. currentUser ctx = Some user
        \<and> after (handleSaveEvent rejects ctx None d s) =
            s\<lparr>events := (events s)(nextKey s \<mapsto> new_event user d), nextKey := Suc (nextKey s)\<rparr>)"
  by (auto simp: handleSaveEvent_def send_def Let_def split: option.splits)

lemma handleDeleteEvent_effect:
  "after (handleDeleteEvent rejects k s) = s
   \<or> after (handleDeleteEvent rejects k s) = s\<lparr>events := (events s)(k := None)\<rparr>"
  by (auto simp: handleDeleteEvent_def send_def Let_def)

lemma handleRegister_effect:
  "after (handleRegister rejects now ctx k s) = s
   \<or> (\<exists>user e. currentUser ctx = Some user \<and> events s k = Some e
        \<and> uid user \<notin> set (attendees e) \<and> of_nat (length (attendees e)) < capacity e
        \<and> (after (handleRegister rejects now ctx k s) =
              s\<lparr>events := (events s)(k \<mapsto> e\<lparr>attendees := attendees e @ [uid user]\<rparr>)\<rparr>
           \<or> after (handleRegister rejects now ctx k s) =
              s\<lparr>events := (events s)(k \<mapsto> e\<lparr>attendees := attendees e @ [uid user]\<rparr>),
                registrations :=
                  (registrations s)((uid user, k) \<mapsto> \<lparr>r_eventId = k, r_registeredAt = now\<rparr>)\<rparr>))"
  by (auto simp: handleRegister_def getDoc_event_def send_def Let_def merge_attendees_field
      split: option.splits)

lemma handleCancelRegistration_effect:
  "after (handleCancelRegistration rejects ctx k s) = s
   \<or> (\<exists>user e. currentUser ctx = Some user \<and> events s k = Some e
        \<and> (after (handleCancelRegistration rejects ctx k s) =
              s\<lparr>events := (events s)(k \<mapsto> e\<lparr>attendees := filter (\<lambda>i. i \<noteq> uid user) (attendees e)\<rparr>)\<rparr>
           \<or> after (handleCancelRegistration rejects ctx k s) =
              s\<lparr>events := (events s)(k \<mapsto> e\<lparr>attendees := filter (\<lambda>i. i \<noteq> uid user) (attendees e)\<rparr>),
                registrations := (registrations s)((uid user, k) := None)\<rparr>))"
  by (auto simp: handleCancelRegistration_def getDoc_event_def send_def Let_def merge_attendees_field
      split: option.splits)

section \<open>Status of an event\<close>

lemma created_event_pending:
  assumes "currentUser ctx = Some user" and "\<not> rejects (AddEvent (new_event user d))"
  shows "events (after (handleSaveEvent rejects ctx None d s)) (nextKey s) = Some (new_event user d)
     \<and> status (new_event user d) = Pending \<and> attendees (new_event user d) = []"
  using assms by (simp add: handleSaveEvent_def send_def Let_def new_event_def)

text \<open>No sequence of operations brings an event that is not pending back to pending.\<close>

lemma step_keeps_not_pending:
  assumes "k < nextKey s" and "not_pending_at s k"
  shows "k < nextKey (step rejects s (ctx, x)) \<and> not_pending_at (step rejects s (ctx, x)) k"
proof (cases x)
  case (Save eventToEdit form)
  show ?thesis
  proof (cases "submitForm form")
    case None
    with Save assms show ?thesis by simp
  next
    case (Some d)
    show ?thesis
    proof (cases eventToEdit)
      case None
      with Save Some assms handleSaveEvent_create_effect [of rejects ctx d s] show ?thesis
        by (auto simp: not_pending_at_def)
    next
      case ed: (Some ev)
      with Save Some assms handleSaveEvent_edit_effect [of rejects ctx "fst ev" "snd ev" d s]
      show ?thesis
        by (auto simp: not_pending_at_def merge_eventData_fields split: if_splits)
    qed
  qed
next
  case (Delete k')
  with assms handleDeleteEvent_effect [of rejects k' s] show ?thesis
    by (auto simp: not_pending_at_def)
next
  case (Register now k')
  with assms handleRegister_effect [of rejects now ctx k' s] show ?thesis
    by (auto simp: not_pending_at_def split: if_splits)
next
  case (Cancel k')
  with assms handleCancelRegistration_effect [of rejects ctx k' s] show ?thesis
    by (auto simp: not_pending_at_def split: if_splits)
next
  case (Approve k')
  with assms handleApproveEvent_effect [of rejects ctx k' s] show ?thesis
    by (auto simp: not_pending_at_def split: if_splits)
next
  case (Reject k')
  with assms handleRejectEvent_effect [of rejects ctx k' s] show ?thesis
    by (auto simp: not_pending_at_def split: if_splits)
qed

lemma run_keeps_not_pending:
  "k < nextKey s \<Longrightarrow> not_pending_at s k \<Longrightarrow>
     k < nextKey (run s xs) \<and> not_pending_at (run s xs) k"
proof (induction xs arbitrary: s)
  case Nil
  then show ?case by (simp add: run_def)
next
  case (Cons x xs)
  obtain rejects ctx y where x: "x = (rejects, ctx, y)" by (cases x)
  from Cons.prems step_keeps_not_pending [of k s rejects ctx y]
  have "k < nextKey (step rejects s (ctx, y)) \<and> not_pending_at (step rejects s (ctx, y)) k"
    by simp
  with Cons.IH [of "step rejects s (ctx, y)"] show ?case by (simp add: run_def x)
qed


text \<open>
  In sessions without the administrator flag no operation changes the status of an
  event: as long as the event exists it keeps the status it has.
\<close>

lemma step_keeps_status:
  assumes "\<not> isAdmin ctx" and "k < nextKey s" and "status_kept s k st"
  shows "k < nextKey (step rejects s (ctx, x)) \<and> status_kept (step rejects s (ctx, x)) k st"
proof (cases x)
  case (Save eventToEdit form)
  show ?thesis
  proof (cases "submitForm form")
    case None
    with Save assms show ?thesis by simp
  next
    case (Some d)
    show ?thesis
    proof (cases eventToEdit)
      case None
      with Save Some assms handleSaveEvent_create_effect [of rejects ctx d s] show ?thesis
        by (auto simp: status_kept_def)
    next
      case ed: (Some ev)
      with Save Some assms handleSaveEvent_edit_effect [of rejects ctx "fst ev" "snd ev" d s]
      show ?thesis
        by (auto simp: status_kept_def merge_eventData_fields split: if_splits)
    qed
  qed
next
  case (Delete k')
  with assms handleDeleteEvent_effect [of rejects k' s] show ?thesis
    by (auto simp: status_kept_def)
next
  case (Register now k')
  with assms handleRegister_effect [of rejects now ctx k' s] show ?thesis
    by (auto simp: status_kept_def split: if_splits)
next
  case (Cancel k')
  with assms handleCancelRegistration_effect [of rejects ctx k' s] show ?thesis
    by (auto simp: status_kept_def split: if_splits)
next
  case (Approve k')
  with assms handleApproveEvent_effect [of rejects ctx k' s] show ?thesis
    by auto
next
  case (Reject k')
  with assms handleRejectEvent_effect [of rejects ctx k' s] show ?thesis
    by auto
qed

lemma run_keeps_status:
  "no_admin xs \<Longrightarrow> k < nextKey s \<Longrightarrow> status_kept s k st \<Longrightarrow>
     k < nextKey (run s xs) \<and> status_kept (run s xs) k st"
proof (induction xs arbitrary: s)
  case Nil
  then show ?case by (simp add: run_def)
next
  case (Cons x xs)
  obtain rejects ctx y where x: "x = (rejects, ctx, y)" by (cases x)
  from Cons.prems(1) x have na: "\<not> isAdmin ctx" and rest: "no_admin xs"
    by (simp_all add: no_admin_def)
  from na Cons.prems(2,3) step_keeps_status [of ctx k s st rejects y]
  have "k < nextKey (step rejects s (ctx, y)) \<and> status_kept (step rejects s (ctx, y)) k st"
    by simp
  with Cons.IH [of "step rejects s (ctx, y)"] rest show ?case by (simp add: run_def x)
qed

section \<open>The session context the provider builds\<close>

lemma event_and_registration_references:
  "doc (eventPath appId eventId) = Some (eventPath appId eventId)
   \<and> doc (registrationPath appId u eventId) = Some (registrationPath appId u eventId)
   \<and> doc (profilePath appId u) = None"
  by (simp add: doc_def eventPath_def registrationPath_def profilePath_def)

text \<open>
  When a user is signed in the callback sets \<^verbatim>\<open>currentUser\<close> and stops at \<^verbatim>\<open>doc\<close>: it
  asks the store for nothing and touches neither \<^verbatim>\<open>isAdmin\<close> nor \<^verbatim>\<open>loading\<close>.
\<close>

lemma onAuthStateChanged_user:
  "onAuthStateChanged appId rejects st (Some user) s = (st\<lparr>currentUser := Some user\<rparr>, s, [])"
  by (simp add: onAuthStateChanged_def doc_def profilePath_def)

lemma onAuthStateChanged_keeps_no_admin:
  "\<not> isAdmin st \<Longrightarrow> \<not> isAdmin (fst (onAuthStateChanged appId rejects st u s))"
  by (cases u) (simp_all add: onAuthStateChanged_def doc_def profilePath_def)

lemma provider_never_admin: "\<not> isAdmin (provider appId changes)"
proof -
  have "\<not> isAdmin st \<Longrightarrow>
      \<not> isAdmin (foldl (\<lambda>st c. fst (onAuthStateChanged appId (fst c) st (fst (snd c)) (snd (snd c))))
        st changes)" for st
  proof (induction changes arbitrary: st)
    case Nil
    then show ?case by simp
  next
    case (Cons c cs)
    from Cons.prems have "\<not> isAdmin (fst (onAuthStateChanged appId (fst c) st (fst (snd c)) (snd (snd c))))"
      by (rule onAuthStateChanged_keeps_no_admin)
    then show ?case using Cons.IH by simp
  qed
  then show ?thesis by (simp add: provider_def initial_context_def)
qed

lemma not_admin_refused:
  assumes "\<not> isAdmin ctx"
  shows "handleApproveEvent rejects ctx k s =
           \<lparr>shown = Text ''You are not authorized to approve events.'', after = s, sent = []\<rparr>"
    and "handleRejectEvent rejects ctx k s =
           \<lparr>shown = Text ''You are not authorized to reject events.'', after = s, sent = []\<rparr>"
  using assms by (simp_all add: handleApproveEvent_def handleRejectEvent_def)

lemma root_session_value:
  "root_session s = \<lparr>currentUser = Some root_user, isAdmin = False, loading = False\<rparr>"
  by (simp add: root_session_def provider_def initial_context_def onAuthStateChanged_def doc_def
      profilePath_def)

section \<open>Approve and reject on an event that is not pending\<close>


section \<open>Authorization of approve and reject\<close>

text \<open>
  C3. Approve and reject are meant to be refused unless the actor's profile says
  \<^verbatim>\<open>isAdmin: true\<close>, the profile being consulted for the decision. In the store
  \<open>admin_office\<close> root's profile says \<^verbatim>\<open>isAdmin: true\<close> and event 0 is pending. When root
  signs in, the callback of the provider sends no request at all: the profile is not
  read. The session has no administrator flag, and root's approve and reject are refused
  with "You are not authorized to ..."; the event stays pending.
\<close>

theorem admin_profile_not_consulted:
  "map_option profile_isAdmin (profiles admin_office (uid root_user)) = Some True
   \<and> map_option status (events admin_office 0) = Some Pending
   \<and> onAuthStateChanged ''default-app-id'' accept_all
        (provider ''default-app-id'' [(accept_all, None, admin_office)]) (Some root_user) admin_office
       = (root_session admin_office, admin_office, [])
   \<and> currentUser (root_session admin_office) = Some root_user
   \<and> isAdmin (root_session admin_office) = False
   \<and> handleApproveEvent accept_all (root_session admin_office) 0 admin_office =
       \<lparr>shown = Text ''You are not authorized to approve events.'', after = admin_office, sent = []\<rparr>
   \<and> handleRejectEvent accept_all (root_session admin_office) 0 admin_office =
       \<lparr>shown = Text ''You are not authorized to reject events.'', after = admin_office, sent = []\<rparr>"
  by (simp add: root_session_value handleApproveEvent_def handleRejectEvent_def admin_office_def
      one_event_def workshop_event_def root_user_def provider_def initial_context_def
      onAuthStateChanged_def doc_def profilePath_def)

section \<open>The displayed events\<close>

lemma includes_str_sublist: "includes_str hay needle \<longleftrightarrow> sublist needle hay"
  by (induction hay) (simp_all add: sublist_Cons_right)

text \<open>
  C9. For every list of events, session and filter settings, the displayed list is the
  tab filter applied first and then both secondary filters together: date equality, and
  the location filter, which holds when the lower-cased filter text is a substring of the
  lower-cased location; an empty filter string switches its filter off. The location
  filter does not see case: two filter texts with the same lower-case form display the
  same events, and two locations with the same lower-case form are matched alike. The
  tab filter of the "all" tab keeps exactly the events with status approved, so with both
  secondary filters off the tab shows exactly the approved events. The tab filter of the
  "adminPending" tab keeps exactly the pending events for an administrator and nothing
  for anyone else, whatever events are passed in.
\<close>

theorem displayed_events_by_tab:
  "displayedEvents toLowerCase ctx tab filterDate filterLocation evs =
     filter (\<lambda>ev. matchesDate filterDate (snd ev) \<and> matchesLocation toLowerCase filterLocation (snd ev))
       (filter (\<lambda>ev. tabShows ctx tab (snd ev)) evs)
   \<and> matchesDate filterDate e = (filterDate = [] \<or> date e = filterDate)
   \<and> matchesLocation toLowerCase filterLocation e =
       (filterLocation = [] \<or> sublist (toLowerCase filterLocation) (toLowerCase (location e)))
   \<and> (filterLocation \<noteq> [] \<and> filterLocation' \<noteq> []
        \<and> toLowerCase filterLocation = toLowerCase filterLocation' \<longrightarrow>
        displayedEvents toLowerCase ctx tab filterDate filterLocation evs =
          displayedEvents toLowerCase ctx tab filterDate filterLocation' evs)
   \<and> (toLowerCase (location e) = toLowerCase (location e') \<longrightarrow>
        matchesLocation toLowerCase filterLocation e = matchesLocation toLowerCase filterLocation e')
   \<and> tabShows ctx ''all'' e = (status e = Approved)
   \<and> tabShows ctx ''adminPending'' e = (isAdmin ctx \<and> status e = Pending)
   \<and> displayedEvents toLowerCase ctx ''all'' filterDate filterLocation evs =
       filter (\<lambda>ev. matchesDate filterDate (snd ev) \<and> matchesLocation toLowerCase filterLocation (snd ev))
         (filter (\<lambda>ev. status (snd ev) = Approved) evs)
   \<and> displayedEvents toLowerCase ctx ''all'' [] [] evs = filter (\<lambda>ev. status (snd ev) = Approved) evs
   \<and> (isAdmin ctx \<longrightarrow>
        displayedEvents toLowerCase ctx ''adminPending'' filterDate filterLocation evs =
          filter (\<lambda>ev. matchesDate filterDate (snd ev) \<and> matchesLocation toLowerCase filterLocation (snd ev))
            (filter (\<lambda>ev. status (snd ev) = Pending) evs)
        \<and> displayedEvents toLowerCase ctx ''adminPending'' [] [] evs =
            filter (\<lambda>ev. status (snd ev) = Pending) evs)
   \<and> (\<not> isAdmin ctx \<longrightarrow>
        displayedEvents toLowerCase ctx ''adminPending'' filterDate filterLocation evs = [])"
proof (intro conjI impI)
  show "displayedEvents toLowerCase ctx tab filterDate filterLocation evs =
     filter (\<lambda>ev. matchesDate filterDate (snd ev) \<and> matchesLocation toLowerCase filterLocation (snd ev))
       (filter (\<lambda>ev. tabShows ctx tab (snd ev)) evs)"
    by (simp add: displayedEvents_def filteredEvents_def conj_commute)
  show "matchesDate filterDate e = (filterDate = [] \<or> date e = filterDate)"
    by (simp add: matchesDate_def)
  show "matchesLocation toLowerCase filterLocation e =
       (filterLocation = [] \<or> sublist (toLowerCase filterLocation) (toLowerCase (location e)))"
    by (simp add: matchesLocation_def includes_str_sublist)
  show "tabShows ctx ''all'' e = (status e = Approved)"
    by (simp add: tabShows_def)
  show "tabShows ctx ''adminPending'' e = (isAdmin ctx \<and> status e = Pending)"
    by (simp add: tabShows_def)
  show "displayedEvents toLowerCase ctx ''all'' filterDate filterLocation evs =
       filter (\<lambda>ev. matchesDate filterDate (snd ev) \<and> matchesLocation toLowerCase filterLocation (snd ev))
         (filter (\<lambda>ev. status (snd ev) = Approved) evs)"
    by (simp add: displayedEvents_def filteredEvents_def tabShows_def conj_commute)
  show "displayedEvents toLowerCase ctx ''all'' [] [] evs = filter (\<lambda>ev. status (snd ev) = Approved) evs"
    by (simp add: displayedEvents_def filteredEvents_def tabShows_def matchesDate_def
        matchesLocation_def)
next
  assume "filterLocation \<noteq> [] \<and> filterLocation' \<noteq> []
        \<and> toLowerCase filterLocation = toLowerCase filterLocation'"
  then have "matchesLocation toLowerCase filterLocation = matchesLocation toLowerCase filterLocation'"
    by (intro ext) (simp add: matchesLocation_def)
  then show "displayedEvents toLowerCase ctx tab filterDate filterLocation evs =
          displayedEvents toLowerCase ctx tab filterDate filterLocation' evs"
    by (simp add: displayedEvents_def filteredEvents_def)
next
  assume "toLowerCase (location e) = toLowerCase (location e')"
  then show "matchesLocation toLowerCase filterLocation e = matchesLocation toLowerCase filterLocation e'"
    by (simp add: matchesLocation_def)
next
  assume "isAdmin ctx"
  then show "displayedEvents toLowerCase ctx ''adminPending'' filterDate filterLocation evs =
          filter (\<lambda>ev. matchesDate filterDate (snd ev) \<and> matchesLocation toLowerCase filterLocation (snd ev))
            (filter (\<lambda>ev. status (snd ev) = Pending) evs)"
    and "displayedEvents toLowerCase ctx ''adminPending'' [] [] evs =
            filter (\<lambda>ev. status (snd ev) = Pending) evs"
    by (simp_all add: displayedEvents_def filteredEvents_def tabShows_def matchesDate_def
        matchesLocation_def conj_commute)
next
  assume "\<not> isAdmin ctx"
  then show "displayedEvents toLowerCase ctx ''adminPending'' filterDate filterLocation evs = []"
    by (simp add: displayedEvents_def tabShows_def)
qed

text \<open>
  The witness shows the view on \<open>four_events\<close> and \<open>three_events\<close>: the location filter
  "MAIN" keeps the approved workshop in the "Main Hall", the filter "rose garden" with the
  date of the garden party keeps the garden party, the same date with the filter "main"
  keeps nothing, and "MAIN" and "main" display the same.
\<close>

theorem displayed_events_by_tab_witness:
  "displayedEvents lower_ascii (signed_in ''bob'' False) ''all'' [] ''MAIN'' four_events =
     [(0, workshop_event 5 Approved [])]
   \<and> displayedEvents lower_ascii (signed_in ''bob'' False) ''all'' ''2030-02-01'' ''rose garden'' four_events =
     [(3, garden_party)]
   \<and> displayedEvents lower_ascii (signed_in ''bob'' False) ''all'' ''2030-02-01'' ''main'' four_events = []
   \<and> displayedEvents lower_ascii (signed_in ''bob'' False) ''all'' [] ''main'' four_events =
     displayedEvents lower_ascii (signed_in ''bob'' False) ''all'' [] ''MAIN'' four_events
   \<and> displayedEvents lower_ascii (signed_in ''bob'' False) ''all'' [] [] three_events =
     [(0, workshop_event 5 Approved [])]
   \<and> displayedEvents lower_ascii (signed_in ''bob'' False) ''adminPending'' [] [] three_events = []
   \<and> displayedEvents lower_ascii (signed_in ''root'' True) ''adminPending'' [] [] three_events =
     [(1, workshop_event 5 Pending [])]"
proof -
  have h1: "\<not> isAdmin (signed_in ''bob'' False)" and h2: "isAdmin (signed_in ''root'' True)"
    by (simp_all add: signed_in_def)
  have low: "lower_ascii ''MAIN'' = ''main''" "lower_ascii ''main'' = ''main''"
    "lower_ascii ''rose garden'' = ''rose garden''"
    "lower_ascii ''Main Hall'' = ''main hall''" "lower_ascii ''Rose Garden'' = ''rose garden''"
    by (simp_all add: lower_ascii_def)
  have h3: "''main'' \<noteq> [] \<and> ''MAIN'' \<noteq> [] \<and> lower_ascii ''main'' = lower_ascii ''MAIN''"
    by (simp add: low)
  note all_tab = displayed_events_by_tab [of lower_ascii "signed_in ''bob'' False" "''all''"]
  from all_tab [of "[]" "''MAIN''" four_events]
  have "displayedEvents lower_ascii (signed_in ''bob'' False) ''all'' [] ''MAIN'' four_events =
      filter (\<lambda>ev. matchesDate [] (snd ev) \<and> matchesLocation lower_ascii ''MAIN'' (snd ev))
        (filter (\<lambda>ev. status (snd ev) = Approved) four_events)"
    by blast
  then have c1: "displayedEvents lower_ascii (signed_in ''bob'' False) ''all'' [] ''MAIN'' four_events =
      [(0, workshop_event 5 Approved [])]"
    by (simp add: four_events_def three_events_def workshop_event_def garden_party_def
        matchesDate_def matchesLocation_def low)
  from all_tab [of "''2030-02-01''" "''rose garden''" four_events]
  have "displayedEvents lower_ascii (signed_in ''bob'' False) ''all'' ''2030-02-01'' ''rose garden'' four_events =
      filter (\<lambda>ev. matchesDate ''2030-02-01'' (snd ev) \<and> matchesLocation lower_ascii ''rose garden'' (snd ev))
        (filter (\<lambda>ev. status (snd ev) = Approved) four_events)"
    by blast
  then have c2: "displayedEvents lower_ascii (signed_in ''bob'' False) ''all'' ''2030-02-01'' ''rose garden''
      four_events = [(3, garden_party)]"
    by (simp add: four_events_def three_events_def workshop_event_def garden_party_def
        matchesDate_def matchesLocation_def low)
  from all_tab [of "''2030-02-01''" "''main''" four_events]
  have "displayedEvents lower_ascii (signed_in ''bob'' False) ''all'' ''2030-02-01'' ''main'' four_events =
      filter (\<lambda>ev. matchesDate ''2030-02-01'' (snd ev) \<and> matchesLocation lower_ascii ''main'' (snd ev))
        (filter (\<lambda>ev. status (snd ev) = Approved) four_events)"
    by blast
  then have c3: "displayedEvents lower_ascii (signed_in ''bob'' False) ''all'' ''2030-02-01'' ''main''
      four_events = []"
    by (simp add: four_events_def three_events_def workshop_event_def garden_party_def
        matchesDate_def matchesLocation_def low)
  from h3 all_tab [of "[]" "''main''" four_events _ "''MAIN''"]
  have c4: "displayedEvents lower_ascii (signed_in ''bob'' False) ''all'' [] ''main'' four_events =
     displayedEvents lower_ascii (signed_in ''bob'' False) ''all'' [] ''MAIN'' four_events"
    by blast
  from all_tab [of _ _ three_events]
  have "displayedEvents lower_ascii (signed_in ''bob'' False) ''all'' [] [] three_events =
      filter (\<lambda>ev. status (snd ev) = Approved) three_events"
    by blast
  then have c5: "displayedEvents lower_ascii (signed_in ''bob'' False) ''all'' [] [] three_events =
      [(0, workshop_event 5 Approved [])]"
    by (simp add: three_events_def workshop_event_def)
  from h1 displayed_events_by_tab [of lower_ascii "signed_in ''bob'' False" _ "[]" "[]" three_events]
  have c6: "displayedEvents lower_ascii (signed_in ''bob'' False) ''adminPending'' [] [] three_events = []"
    by blast
  from h2 displayed_events_by_tab [of lower_ascii "signed_in ''root'' True" _ _ _ three_events]
  have "displayedEvents lower_ascii (signed_in ''root'' True) ''adminPending'' [] [] three_events =
      filter (\<lambda>ev. status (snd ev) = Pending) three_events"
    by blast
  then have c7: "displayedEvents lower_ascii (signed_in ''root'' True) ''adminPending'' [] [] three_events =
      [(1, workshop_event 5 Pending [])]"
    by (simp add: three_events_def workshop_event_def)
  from c1 c2 c3 c4 c5 c6 c7 show ?thesis by blast
qed

section \<open>The capacity invariant\<close>










subsection \<open>What the invariant rests on\<close>

text \<open>
  The invariant is one of a single client. When several users act in turn, an edit can
  set the capacity below the number of attendees: on an approved workshop with capacity
  2, alice and bob register and carol, the creator, saves the form with capacity 1.
\<close>

lemma capacity_lowered_below_two_attendees:
  "submitForm (workshop 1) = Some (workshop 1)
   \<and> events (run (one_event (workshop_event 2 Approved [])) shrinking_run) 0 =
       Some (workshop_event 1 Approved [''alice'', ''bob''])"
  by (simp add: run_def shrinking_run_def submitForm_def formValid_def handleSubmit_def
      handleSaveEvent_def handleRegister_def getDoc_event_def send_def Let_def
      merge_attendees_field merge_eventData_fields signed_in_def accept_all_def one_event_def
      workshop_def workshop_event_def)

text \<open>
  The capacities of at least 1 come from the number input of the form (\<^verbatim>\<open>min="1"\<close>), not
  from the test in \<^verbatim>\<open>handleSubmit\<close>, which lets every positive number pass: one half
  passes the test and is refused by the input. An event with that capacity would take a
  registration, and one attendee is more than one half.
\<close>

lemma handleSubmit_test_alone:
  "handleSubmit (workshop (1 / 2)) = Some (workshop (1 / 2))
   \<and> submitForm (workshop (1 / 2)) = None
   \<and> map_option attendees (events (after (handleRegister accept_all ''2030-01-02T09:00:00.000Z''
        (signed_in ''carol'' False) 0 (one_event (workshop_event (1 / 2) Approved [])))) 0) = Some [''carol'']"
  by (simp add: submitForm_def formValid_def handleSubmit_def handleRegister_def getDoc_event_def
      send_def Let_def merge_attendees_field signed_in_def accept_all_def one_event_def
      workshop_def workshop_event_def)

end
